theory Spec2Isabelle
  imports Main
begin

section \<open>JavaScript values\<close>

text \<open>
  Both source files work on values that come out of \<^verbatim>\<open>JSON.parse\<close> (the stream frame,
  the body of an HTTP error) and read them with no check of their shape, so the model
  keeps them untyped. A string is a list of code units below 256; text with other code
  units is outside the model. A number is carried as the decimal text that
  \<^verbatim>\<open>Number.prototype.toString\<close> gives for it: the code only tests a number for truth,
  compares it with zero and serialises it, and all three are read off that text.
  An object lists its own properties in enumeration order, each key once.
  \<^verbatim>\<open>undefined\<close> is \<open>None\<close> of \<open>jsval\<close>.
\<close>

datatype json =
    JNull
  | JBool bool
  | JNum string
  | JStr string
  | JArr "json list"
  | JObj "(string \<times> json) list"

type_synonym jsval = "json option"

datatype exn = TypeError | SyntaxError | Error string

text \<open>Sequencing of steps that may throw: the first exception ends the evaluation.\<close>

definition bindE :: "exn + 'a \<Rightarrow> ('a \<Rightarrow> exn + 'b) \<Rightarrow> exn + 'b" where
  "bindE m f = (case m of Inl e \<Rightarrow> Inl e | Inr x \<Rightarrow> f x)"

fun show_nat :: "nat \<Rightarrow> string" where
  "show_nat n =
     (if n < 10 then [char_of (48 + n)]
      else show_nat (n div 10) @ [char_of (48 + n mod 10)])"

declare show_nat.simps [simp del]

text \<open>
  Property reads on a value that is neither \<^verbatim>\<open>undefined\<close> nor \<^verbatim>\<open>null\<close>.
  \<open>js_prop\<close> is for the property names the code reads (candidates, content, parts, text,
  finishReason, safetyRatings, error, code, status, message, details, length): of these
  the builtin prototypes define only \<^verbatim>\<open>length\<close>, on strings and arrays.
  \<open>js_index0\<close> is the read \<^verbatim>\<open>x[0]\<close>.
\<close>

fun js_prop :: "json \<Rightarrow> string \<Rightarrow> jsval" where
  "js_prop (JObj kvs) k = map_of kvs k"
| "js_prop (JArr xs) k = (if k = ''length'' then Some (JNum (show_nat (length xs))) else None)"
| "js_prop (JStr s) k = (if k = ''length'' then Some (JNum (show_nat (length s))) else None)"
| "js_prop _ k = None"

fun js_index0 :: "json \<Rightarrow> jsval" where
  "js_index0 (JArr xs) = (case xs of [] \<Rightarrow> None | x # _ \<Rightarrow> Some x)"
| "js_index0 (JStr s) = (case s of [] \<Rightarrow> None | c # _ \<Rightarrow> Some (JStr [c]))"
| "js_index0 (JObj kvs) = map_of kvs ''0''"
| "js_index0 _ = None"

text \<open>\<^verbatim>\<open>v.k\<close> throws a TypeError on undefined and null; \<^verbatim>\<open>v?.k\<close> gives undefined there.\<close>

fun member :: "jsval \<Rightarrow> string \<Rightarrow> exn + jsval" where
  "member None k = Inl TypeError"
| "member (Some JNull) k = Inl TypeError"
| "member (Some j) k = Inr (js_prop j k)"

fun opt_member :: "jsval \<Rightarrow> string \<Rightarrow> jsval" where
  "opt_member None k = None"
| "opt_member (Some JNull) k = None"
| "opt_member (Some j) k = js_prop j k"

fun index0 :: "jsval \<Rightarrow> exn + jsval" where
  "index0 None = Inl TypeError"
| "index0 (Some JNull) = Inl TypeError"
| "index0 (Some j) = Inr (js_index0 j)"

text \<open>Truthiness, \<^verbatim>\<open>a || b\<close> and \<^verbatim>\<open>a ?? b\<close> with a defined right operand.\<close>

fun truthy :: "jsval \<Rightarrow> bool" where
  "truthy None = False"
| "truthy (Some JNull) = False"
| "truthy (Some (JBool b)) = b"
| "truthy (Some (JNum s)) = (s \<noteq> ''0'' \<and> s \<noteq> ''NaN'')"
| "truthy (Some (JStr s)) = (s \<noteq> [])"
| "truthy (Some (JArr xs)) = True"
| "truthy (Some (JObj kvs)) = True"

definition js_or :: "jsval \<Rightarrow> json \<Rightarrow> json" where
  "js_or a b = (case a of None \<Rightarrow> b | Some j \<Rightarrow> if truthy (Some j) then j else b)"

fun coalesce :: "jsval \<Rightarrow> json \<Rightarrow> json" where
  "coalesce None b = b"
| "coalesce (Some JNull) b = b"
| "coalesce (Some j) b = j"

text \<open>
  \<^verbatim>\<open>v > 0\<close>. undefined becomes NaN, null becomes 0, a boolean 0 or 1, and a number is
  positive when its text is neither zero, NaN nor signed. A string, an array or an
  object is first converted to a number by the language; that conversion is the
  parameter \<open>loose\<close>, which says whether the comparison comes out true.
\<close>

definition num_positive :: "string \<Rightarrow> bool" where
  "num_positive s = (s \<noteq> [] \<and> s \<noteq> ''0'' \<and> s \<noteq> ''NaN'' \<and> take 1 s \<noteq> ''-'')"

fun js_gt0 :: "(json \<Rightarrow> bool) \<Rightarrow> jsval \<Rightarrow> bool" where
  "js_gt0 loose None = False"
| "js_gt0 loose (Some JNull) = False"
| "js_gt0 loose (Some (JBool b)) = b"
| "js_gt0 loose (Some (JNum s)) = num_positive s"
| "js_gt0 loose (Some j) = loose j"

subsection \<open>Strings\<close>

definition join :: "string \<Rightarrow> string list \<Rightarrow> string" where
  "join sep xs = concat (case xs of [] \<Rightarrow> [] | y # ys \<Rightarrow> y # map (\<lambda>z. sep @ z) ys)"

definition is_line_terminator :: "char \<Rightarrow> bool" where
  "is_line_terminator c = (c = CHR 0x0A \<or> c = CHR 0x0D)"

definition is_whitespace :: "char \<Rightarrow> bool" where
  "is_whitespace c =
     (c = CHR 0x09 \<or> c = CHR 0x0A \<or> c = CHR 0x0B \<or> c = CHR 0x0C \<or> c = CHR 0x0D
      \<or> c = CHR 0x20 \<or> c = CHR 0xA0)"

definition js_trim :: "string \<Rightarrow> string" where
  "js_trim s = rev (dropWhile is_whitespace (rev (dropWhile is_whitespace s)))"

fun starts_with :: "string \<Rightarrow> string \<Rightarrow> bool" where
  "starts_with [] s = True"
| "starts_with (p # ps) [] = False"
| "starts_with (p # ps) (c # cs) = (p = c \<and> starts_with ps cs)"

fun contains :: "string \<Rightarrow> string \<Rightarrow> bool" where
  "contains p [] = (p = [])"
| "contains p (c # cs) = (starts_with p (c # cs) \<or> contains p cs)"

text \<open>
  What the claims mean by a trimmed text: \<open>u\<close> is \<open>s\<close> without the whitespace at its two
  ends, so \<open>u\<close> itself neither starts nor ends with whitespace.
\<close>

definition whitespace_trimmed :: "string \<Rightarrow> string \<Rightarrow> bool" where
  "whitespace_trimmed s u =
     (\<exists>a b. s = a @ u @ b \<and> list_all is_whitespace a \<and> list_all is_whitespace b
            \<and> (u = [] \<or> (\<not> is_whitespace (hd u) \<and> \<not> is_whitespace (last u))))"

text \<open>
  \<^verbatim>\<open>s.replace(pattern, replacement)\<close> with a text pattern: the first occurrence of the
  pattern is replaced, and in the replacement a dollar sign followed by a dollar sign,
  an ampersand, a backtick or an apostrophe stands for a dollar sign, the matched text,
  the text before the match and the text after it. Any other dollar sign stands for
  itself, a text pattern having no groups.
\<close>

fun substitute :: "string \<Rightarrow> string \<Rightarrow> string \<Rightarrow> string \<Rightarrow> string" where
  "substitute matched before after [] = []"
| "substitute matched before after [c] = [c]"
| "substitute matched before after (c # d # ds) =
     (if c = CHR 0x24 \<and> d = CHR 0x24 then CHR 0x24 # substitute matched before after ds
      else if c = CHR 0x24 \<and> d = CHR 0x26 then matched @ substitute matched before after ds
      else if c = CHR 0x24 \<and> d = CHR 0x60 then before @ substitute matched before after ds
      else if c = CHR 0x24 \<and> d = CHR 0x27 then after @ substitute matched before after ds
      else c # substitute matched before after (d # ds))"

fun split_first :: "string \<Rightarrow> string \<Rightarrow> (string \<times> string) option" where
  "split_first pat [] = (if pat = [] then Some ([], []) else None)"
| "split_first pat (c # cs) =
     (if starts_with pat (c # cs) then Some ([], drop (length pat) (c # cs))
      else (case split_first pat cs of
              None \<Rightarrow> None
            | Some (before, after) \<Rightarrow> Some (c # before, after)))"

definition js_replace :: "string \<Rightarrow> string \<Rightarrow> string \<Rightarrow> string" where
  "js_replace s pat replacement =
     (case split_first pat s of
        None \<Rightarrow> s
      | Some (before, after) \<Rightarrow> before @ substitute pat before after replacement @ after)"

text \<open>
  \<^verbatim>\<open>JSON.stringify\<close> with no indent. A string is quoted with the escapes of the language:
  the quote, the backslash, the five short escapes and \<^verbatim>\<open>\u00XX\<close> for the other
  control characters. A number that is not finite is written null.
\<close>

definition hex_digit :: "nat \<Rightarrow> char" where
  "hex_digit n = (if n < 10 then char_of (48 + n) else char_of (87 + n))"

definition json_escape :: "char \<Rightarrow> string" where
  "json_escape c =
     (if c = CHR 0x22 then [CHR 0x5C, CHR 0x22]
      else if c = CHR 0x5C then [CHR 0x5C, CHR 0x5C]
      else if c = CHR 0x08 then [CHR 0x5C, CHR ''b'']
      else if c = CHR 0x0C then [CHR 0x5C, CHR ''f'']
      else if c = CHR 0x0A then [CHR 0x5C, CHR ''n'']
      else if c = CHR 0x0D then [CHR 0x5C, CHR ''r'']
      else if c = CHR 0x09 then [CHR 0x5C, CHR ''t'']
      else if (of_char c :: nat) < 32
        then [CHR 0x5C, CHR ''u'', CHR ''0'', CHR ''0'',
              hex_digit (of_char c div 16), hex_digit (of_char c mod 16)]
      else [c])"

definition json_quote :: "string \<Rightarrow> string" where
  "json_quote s = [CHR 0x22] @ concat (map json_escape s) @ [CHR 0x22]"

fun JSON_stringify :: "json \<Rightarrow> string" where
  "JSON_stringify JNull = ''null''"
| "JSON_stringify (JBool b) = (if b then ''true'' else ''false'')"
| "JSON_stringify (JNum s) =
     (if s = ''Infinity'' \<or> s = ''-Infinity'' \<or> s = ''NaN'' then ''null'' else s)"
| "JSON_stringify (JStr s) = json_quote s"
| "JSON_stringify (JArr xs) = ''['' @ join '','' (map JSON_stringify xs) @ '']''"
| "JSON_stringify (JObj kvs) =
     ''{'' @ join '','' (map (\<lambda>(k, v). json_quote k @ '':'' @ JSON_stringify v) kvs) @ ''}''"

text \<open>A value placed in a template literal: \<^verbatim>\<open>JSON.stringify(undefined)\<close> is undefined.\<close>

fun stringify_template :: "jsval \<Rightarrow> string" where
  "stringify_template None = ''undefined''"
| "stringify_template (Some j) = JSON_stringify j"

subsection \<open>The logger\<close>

datatype level = Info | Warn | Err

datatype logv = LStr string | LVal jsval | LList "string list" | LNum nat | LExn exn

datatype log_entry = Log level "(string \<times> logv) list" string

section \<open>The streaming transcoder\<close>

text \<open>
  The frame parser \<^verbatim>\<open>parseEvent\<close> is not among the sources and \<^verbatim>\<open>JSON.parse\<close>,
  \<^verbatim>\<open>Date.now\<close> and the conversion behind \<^verbatim>\<open>>\<close> belong to the language: the
  transcoder takes them as parameters. \<open>JSON_parse\<close> gives \<open>None\<close> where the builtin
  throws its SyntaxError. Of a parsed frame only \<^verbatim>\<open>data\<close> is read; the parameter
  of the transcoder that is also called \<^verbatim>\<open>data\<close>, the raw frame, is \<open>params_data\<close> here.
\<close>

record ServerSentEvent =
  data :: string

record runtime =
  parseEvent :: "string \<Rightarrow> ServerSentEvent"
  JSON_parse :: "string \<Rightarrow> json option"
  loose_gt0 :: "json \<Rightarrow> bool"
  Date_now :: int

record params =
  params_data :: string
  index :: int
  fallbackId :: string
  fallbackModel :: string

text \<open>
  The emitted chunk. \<^verbatim>\<open>choices\<close> always holds one choice; its \<^verbatim>\<open>delta\<close> is the object
  \<^verbatim>\<open>{content}\<close>, kept here as the field \<open>delta_content\<close>. The content and the finish
  reason are whatever the frame held, so they are untyped values.
\<close>

record choice =
  choice_index :: int
  delta_content :: json
  finish_reason :: json

record chunk =
  chunk_id :: string
  object :: string
  created :: int
  model :: string
  choices :: "choice list"

record TransformResult =
  position :: int
  event :: "chunk option"

text \<open>
  \<^verbatim>\<open>asCompletion\<close>: the body of the \<^verbatim>\<open>try\<close> first, then the function, which catches
  whatever the body throws, logs it at warning level and returns null.
\<close>

definition asCompletion_try :: "runtime \<Rightarrow> ServerSentEvent \<Rightarrow> exn + json" where
  "asCompletion_try rt ev =
     (case JSON_parse rt (data ev) of
        None \<Rightarrow> Inl SyntaxError
      | Some parsed \<Rightarrow>
          bindE (member (Some parsed) ''candidates'') (\<lambda>candidates.
            if js_gt0 (loose_gt0 rt) (opt_member candidates ''length'')
            then Inr parsed
            else Inl (Error ''Missing required fields'')))"

definition asCompletion :: "runtime \<Rightarrow> ServerSentEvent \<Rightarrow> json \<times> log_entry list" where
  "asCompletion rt ev =
     (case asCompletion_try rt ev of
        Inr parsed \<Rightarrow> (parsed, [])
      | Inl error \<Rightarrow>
          (JNull,
           [Log Warn [(''error'', LExn error), (''event'', LStr (data ev))]
              ''Received invalid event'']))"

text \<open>\<^verbatim>\<open>completion.candidates[0]\<close>, read several times by the source.\<close>

definition firstCandidate :: "json \<Rightarrow> exn + jsval" where
  "firstCandidate completion = bindE (member (Some completion) ''candidates'') index0"

definition isSafetyStop :: "json \<Rightarrow> exn + bool" where
  "isSafetyStop completion =
     bindE (firstCandidate completion) (\<lambda>c.
     bindE (member c ''finishReason'') (\<lambda>finishReason.
     let isSafetyStop = (coalesce finishReason (JStr []) = JStr ''SAFETY''
                         \<or> coalesce finishReason (JStr []) = JStr ''OTHER'') in
     bindE (firstCandidate completion) (\<lambda>c.
     bindE (member c ''content'') (\<lambda>content.
     let hasNoContent =
           (opt_member (opt_member content ''parts'') ''length'' = Some (JNum ''0'')) in
     Inr (isSafetyStop \<and> hasNoContent)))))"

text \<open>
  The first-chunk strip \<^verbatim>\<open>content.replace(/^(.*?): /, "").trim()\<close>. The pattern is
  anchored at the start, its dot matches any character but a line terminator and its
  star is lazy: \<open>after_speaker\<close> walks the string and stops at the first colon followed
  by a space, or gives up at a line terminator. \<^verbatim>\<open>replace\<close> leaves a string with no match
  as it is. A content that is not a string has no \<^verbatim>\<open>replace\<close> method to call.
\<close>

fun after_speaker :: "string \<Rightarrow> string option" where
  "after_speaker [] = None"
| "after_speaker (c # cs) =
     (if c = CHR '':'' \<and> take 1 cs = '' '' then Some (drop 1 cs)
      else if is_line_terminator c then None
      else after_speaker cs)"

definition replace_speaker :: "string \<Rightarrow> string" where
  "replace_speaker s = (case after_speaker s of None \<Rightarrow> s | Some rest \<Rightarrow> rest)"

fun strip_first_chunk :: "json \<Rightarrow> exn + json" where
  "strip_first_chunk (JStr s) = Inr (JStr (js_trim (replace_speaker s)))"
| "strip_first_chunk _ = Inl TypeError"

text \<open>Lines 37 and 38: the content parts and the text of the first of them.\<close>

definition content_parts :: "json \<Rightarrow> exn + json" where
  "content_parts completionEvent =
     bindE (firstCandidate completionEvent) (\<lambda>c.
     bindE (member c ''content'') (\<lambda>content.
     Inr (js_or (opt_member content ''parts'') (JArr []))))"

definition extracted_text :: "json \<Rightarrow> exn + json" where
  "extracted_text completionEvent =
     bindE (content_parts completionEvent) (\<lambda>parts.
     bindE (index0 (Some parts)) (\<lambda>part.
     Inr (coalesce (opt_member part ''text'') (JStr []))))"

definition safety_warning :: "json \<Rightarrow> exn + json" where
  "safety_warning completionEvent =
     bindE (firstCandidate completionEvent) (\<lambda>c.
     bindE (member c ''safetyRatings'') (\<lambda>safetyRatings.
     Inr (JStr (''[Proxy Warning] Gemini safety filter triggered: ''
                @ stringify_template safetyRatings))))"

text \<open>Lines 37 to 66: what the transcoder does with a frame that passed \<^verbatim>\<open>asCompletion\<close>.\<close>

definition toChunk :: "runtime \<Rightarrow> params \<Rightarrow> json \<Rightarrow> exn + TransformResult" where
  "toChunk rt p completionEvent =
     bindE (extracted_text completionEvent) (\<lambda>content.
     bindE (isSafetyStop completionEvent) (\<lambda>safety.
     bindE (if safety then safety_warning completionEvent else Inr content) (\<lambda>content.
     bindE (if index p = 0 then strip_first_chunk content else Inr content) (\<lambda>content.
     bindE (firstCandidate completionEvent) (\<lambda>c.
     bindE (member c ''finishReason'') (\<lambda>finishReason.
     Inr \<lparr>position = -1,
          event = Some \<lparr>chunk_id = ''goo-'' @ fallbackId p,
                        object = ''chat.completion.chunk'',
                        created = Date_now rt,
                        model = fallbackModel p,
                        choices = [\<lparr>choice_index = 0,
                                    delta_content = content,
                                    finish_reason = coalesce finishReason JNull\<rparr>]\<rparr>\<rparr>))))))"

definition skip :: TransformResult where
  "skip = \<lparr>position = -1, event = None\<rparr>"

definition googleAIToOpenAI ::
  "runtime \<Rightarrow> params \<Rightarrow> (exn + TransformResult) \<times> log_entry list" where
  "googleAIToOpenAI rt p =
     (let rawEvent = parseEvent rt (params_data p) in
      if data rawEvent = [] \<or> data rawEvent = ''[DONE]'' then (Inr skip, [])
      else
        (case asCompletion rt rawEvent of
           (completionEvent, logs) \<Rightarrow>
             if \<not> truthy (Some completionEvent) then (Inr skip, logs)
             else (toChunk rt p completionEvent, logs)))"

text \<open>The \<^verbatim>\<open>delta.content\<close> of the chunk an outcome carries, if it carries one.\<close>

definition emitted_content :: "(exn + TransformResult) \<times> log_entry list \<Rightarrow> json option" where
  "emitted_content r =
     (case fst r of
        Inl e \<Rightarrow> None
      | Inr res \<Rightarrow>
          (case event res of
             None \<Rightarrow> None
           | Some ch \<Rightarrow> (case choices ch of [] \<Rightarrow> None | c # _ \<Rightarrow> Some (delta_content c))))"

section \<open>The key checker\<close>

subsection \<open>Key records and the pool\<close>

text \<open>
  Modelled from the spec: the key record of section 3 (its type, \<^verbatim>\<open>GoogleAIKey\<close>, is
  declared in a file that is not among the sources). The checker reads \<^verbatim>\<open>key\<close>, \<^verbatim>\<open>hash\<close>,
  \<^verbatim>\<open>modelFamilies\<close> and \<^verbatim>\<open>modelIds\<close>; the other fields are the ones its patches name.
  A model family is one of the classifier's string tags.
\<close>

type_synonym GoogleAIModelFamily = string

record GoogleAIKey =
  key :: string
  hash :: string
  isDisabled :: bool
  isRevoked :: bool
  lastChecked :: int
  modelFamilies :: "GoogleAIModelFamily list"
  modelIds :: "string list"

text \<open>The object handed to \<^verbatim>\<open>updateKey\<close>: a field that the object does not name is \<open>None\<close>.\<close>

record patch =
  set_isDisabled :: "bool option"
  set_isRevoked :: "bool option"
  set_lastChecked :: "int option"
  set_modelFamilies :: "GoogleAIModelFamily list option"
  set_modelIds :: "string list option"

definition no_patch :: patch where
  "no_patch = \<lparr>set_isDisabled = None, set_isRevoked = None, set_lastChecked = None,
                set_modelFamilies = None, set_modelIds = None\<rparr>"

text \<open>
  Modelled from the spec: the pool's \<^verbatim>\<open>update(keyId, partialRecord)\<close>, which "accepts any
  subset of the key record's mutable fields and applies them" (section 6), writing the
  record in place (section 9). The provider that implements it is not among the sources.
\<close>

definition apply_patch :: "patch \<Rightarrow> GoogleAIKey \<Rightarrow> GoogleAIKey" where
  "apply_patch p k =
     k\<lparr>isDisabled := (case set_isDisabled p of None \<Rightarrow> isDisabled k | Some v \<Rightarrow> v),
       isRevoked := (case set_isRevoked p of None \<Rightarrow> isRevoked k | Some v \<Rightarrow> v),
       lastChecked := (case set_lastChecked p of None \<Rightarrow> lastChecked k | Some v \<Rightarrow> v),
       modelFamilies := (case set_modelFamilies p of None \<Rightarrow> modelFamilies k | Some v \<Rightarrow> v),
       modelIds := (case set_modelIds p of None \<Rightarrow> modelIds k | Some v \<Rightarrow> v)\<rparr>"

text \<open>
  What the checker does to the world, in order: the calls of \<^verbatim>\<open>updateKey\<close> with their
  patch, the log lines and the HTTP requests. The state holds the pool's record of the
  key under check, which is the object the checker's \<^verbatim>\<open>key\<close> argument refers to, and the
  effects so far.
\<close>

datatype effect =
    UpdateKey string patch
  | Logged log_entry
  | HttpGet string
  | HttpPost string json

record checker_state =
  the_key :: GoogleAIKey
  effects :: "effect list"

definition updateKey :: "string \<Rightarrow> patch \<Rightarrow> checker_state \<Rightarrow> checker_state" where
  "updateKey h p st =
     st\<lparr>the_key := (if hash (the_key st) = h then apply_patch p (the_key st) else the_key st),
        effects := effects st @ [UpdateKey h p]\<rparr>"

definition log :: "level \<Rightarrow> (string \<times> logv) list \<Rightarrow> string \<Rightarrow> checker_state \<Rightarrow> checker_state" where
  "log lv info msg st = st\<lparr>effects := effects st @ [Logged (Log lv info msg)]\<rparr>"

definition KEY_CHECK_PERIOD :: int where
  "KEY_CHECK_PERIOD = 6 * 60 * 60 * 1000"

text \<open>
  Modelled from the spec: "a key is due when now \<ge> lastChecked + recheckPeriod"
  (section 3); the scheduler that computes it is not among the sources.
\<close>

definition nextDue :: "GoogleAIKey \<Rightarrow> int" where
  "nextDue k = lastChecked k + KEY_CHECK_PERIOD"

subsection \<open>HTTP\<close>

text \<open>
  A request ends with a response of some status and body, or with none. The HTTP
  client settles it as its documentation says: the promise resolves when
  \<^verbatim>\<open>validateStatus\<close> accepts the status and is otherwise rejected with an error that
  carries the response; with no response the error carries none.
\<close>

record 'a response =
  status :: int
  response_data :: 'a

record AxiosError =
  response :: "jsval response option"
  message :: string

datatype reply = Response "jsval response" | NoResponse string

fun axios_settle :: "(int \<Rightarrow> bool) \<Rightarrow> reply \<Rightarrow> AxiosError + jsval response" where
  "axios_settle validateStatus (Response r) =
     (if validateStatus (status r) then Inr r
      else Inl \<lparr>response = Some r,
                message = ''Request failed with status code '' @ show_nat (nat (status r))\<rparr>)"
| "axios_settle validateStatus (NoResponse m) = Inl \<lparr>response = None, message = m\<rparr>"

text \<open>
  The body of the model listing, at its declared type \<^verbatim>\<open>ListModelsResponse\<close>; of a model
  only \<^verbatim>\<open>name\<close> is read. The listing is requested on the shared client with that
  client's own settings, which are not among the sources, so the world gives the
  settled call. It also gives the reply to the generation request, the family
  classifier (imported from a file that is not among the sources) and the clock.
\<close>

record model_entry =
  name :: string

record ListModelsResponse =
  models :: "model_entry list"

record world =
  list_models :: "AxiosError + ListModelsResponse response"
  generate_content :: reply
  getGoogleAIModelFamily :: "string \<Rightarrow> GoogleAIModelFamily"
  now :: int

definition LIST_MODELS_URL :: string where
  "LIST_MODELS_URL = ''https://generativelanguage.googleapis.com/v1beta/models''"

definition GENERATE_CONTENT_URL :: string where
  "GENERATE_CONTENT_URL =
     ''https://generativelanguage.googleapis.com/v1beta/models/gemini-1.5-pro-latest:generateContent?key=%KEY%''"

subsection \<open>The probe\<close>

text \<open>\<^verbatim>\<open>Set.add\<close> followed by \<^verbatim>\<open>Array.from\<close>: insertion order, first occurrence kept.\<close>

definition set_add :: "'a list \<Rightarrow> 'a \<Rightarrow> 'a list" where
  "set_add xs x = (if x \<in> set xs then xs else xs @ [x])"

text \<open>
  The loop \<^verbatim>\<open>models.forEach\<close> adds the family of each name to one set and the name to
  another; the two sets do not depend on each other, so each is a fold of its own.
\<close>

definition discovered_ids :: "model_entry list \<Rightarrow> string list" where
  "discovered_ids ms = foldl (\<lambda>ids m. set_add ids (name m)) [] ms"

definition discovered_families ::
  "(string \<Rightarrow> GoogleAIModelFamily) \<Rightarrow> model_entry list \<Rightarrow> GoogleAIModelFamily list" where
  "discovered_families classify ms = foldl (\<lambda>families m. set_add families (classify (name m))) [] ms"

definition getProvisionedModels ::
  "world \<Rightarrow> checker_state \<Rightarrow> (AxiosError + GoogleAIModelFamily list) \<times> checker_state" where
  "getProvisionedModels w st =
     (let st1 = st\<lparr>effects := effects st
                     @ [HttpGet (LIST_MODELS_URL @ ''?pageSize=1000&key='' @ key (the_key st))]\<rparr> in
      case list_models w of
        Inl e \<Rightarrow> (Inl e, st1)
      | Inr r \<Rightarrow>
          (let ids = discovered_ids (models (response_data r));
               families = discovered_families (getGoogleAIModelFamily w) (models (response_data r))
           in (Inr families,
               updateKey (hash (the_key st1))
                 (no_patch\<lparr>set_modelFamilies := Some families, set_modelIds := Some ids\<rparr>) st1)))"

definition generate_payload :: json where
  "generate_payload =
     JObj [(''contents'', JArr [JObj [(''parts'', JObj [(''text'', JStr ''hello'')]),
                                      (''role'', JStr ''user'')]]),
           (''tools'', JArr []),
           (''safetySettings'', JArr []),
           (''generationConfig'', JObj [(''maxOutputTokens'', JNum ''1'')])]"

definition testGenerateContent ::
  "world \<Rightarrow> checker_state \<Rightarrow> (AxiosError + unit) \<times> checker_state" where
  "testGenerateContent w st =
     (let st1 = st\<lparr>effects := effects st
                     @ [HttpPost (js_replace GENERATE_CONTENT_URL ''%KEY%'' (key (the_key st))) generate_payload]\<rparr> in
      case axios_settle (\<lambda>status. status = 200) (generate_content w) of
        Inl e \<Rightarrow> (Inl e, st1)
      | Inr r \<Rightarrow> (Inr (), st1))"

definition testKeyOrFail ::
  "world \<Rightarrow> checker_state \<Rightarrow> (AxiosError + unit) \<times> checker_state" where
  "testKeyOrFail w st =
     (case getProvisionedModels w st of
        (Inl e, st1) \<Rightarrow> (Inl e, st1)
      | (Inr provisionedModels, st1) \<Rightarrow>
          (case testGenerateContent w st1 of
             (Inl e, st2) \<Rightarrow> (Inl e, st2)
           | (Inr u, st2) \<Rightarrow>
               (let updates = no_patch\<lparr>set_modelFamilies := Some provisionedModels\<rparr>;
                    st3 = updateKey (hash (the_key st2)) updates st2
                in (Inr (),
                    log Info [(''key'', LStr (hash (the_key st3))),
                              (''models'', LList (modelFamilies (the_key st3))),
                              (''ids'', LNum (length (modelIds (the_key st3))))]
                      ''Checked key.'' st3))))"

subsection \<open>The error classifier\<close>

text \<open>
  A regular expression literal, and what \<^verbatim>\<open>toString\<close> makes of it. The source joins its
  expressions with a bar, which converts each of them to text, and hands the joined text
  to \<^verbatim>\<open>String.prototype.match\<close>, which compiles a text argument as a pattern with no
  flags. \<open>string_match\<close> is that search for a pattern whose only special character is the
  bar: an alternation of literal texts, compared case by case. Both joined patterns of
  the source are of this kind (a slash, a quote, a colon and an underscore stand for
  themselves).
\<close>

datatype RegExp = RegExp (source: string) (flags: string)

definition RegExp_toString :: "RegExp \<Rightarrow> string" where
  "RegExp_toString r = ''/'' @ source r @ ''/'' @ flags r"

fun split_bar :: "string \<Rightarrow> string list" where
  "split_bar [] = [[]]"
| "split_bar (c # cs) =
     (if c = CHR ''|'' then [] # split_bar cs
      else (case split_bar cs of [] \<Rightarrow> [[c]] | a # as \<Rightarrow> (c # a) # as))"

definition string_match :: "string \<Rightarrow> string \<Rightarrow> bool" where
  "string_match text pattern = list_ex (\<lambda>alt. contains alt text) (split_bar pattern)"

definition keyDeadMsgs_400 :: "RegExp list" where
  "keyDeadMsgs_400 =
     [RegExp ''please enable billing'' ''i'',
      RegExp ''API key not valid'' ''i'',
      RegExp ''API key expired'' ''i'',
      RegExp ''pass a valid API'' ''i'']"

definition keyDeadMsgs_429 :: "RegExp list" where
  "keyDeadMsgs_429 =
     [RegExp ''GenerateContentRequestsPerMinutePerProjectPerRegion'' ''i'',
      RegExp ''\"quota_limit_value\":\"0\"'' ''i'']"

text \<open>
  What an expression of the two lists matches when it is tested on its own, as the
  lists were written to be used: its source has no special character, so with the flag
  \<^verbatim>\<open>i\<close> it matches a text that contains the source in any letter case.
\<close>

definition to_lower :: "char \<Rightarrow> char" where
  "to_lower c =
     (if 65 \<le> (of_char c :: nat) \<and> (of_char c :: nat) \<le> 90 then char_of (of_char c + 32 :: nat)
      else c)"

definition RegExp_test :: "RegExp \<Rightarrow> string \<Rightarrow> bool" where
  "RegExp_test r text = contains (map to_lower (source r)) (map to_lower text)"

definition errorIsGoogleAIError :: "AxiosError \<Rightarrow> bool" where
  "errorIsGoogleAIError error =
     (let data = (case response error of None \<Rightarrow> None | Some r \<Rightarrow> response_data r) in
      truthy (opt_member (opt_member data ''error'') ''code'')
      \<or> truthy (opt_member (opt_member data ''error'') ''status''))"

definition disable_and_revoke :: patch where
  "disable_and_revoke = no_patch\<lparr>set_isDisabled := Some True, set_isRevoked := Some True\<rparr>"

text \<open>Lines 162 to 168: the code after the \<^verbatim>\<open>if\<close>.\<close>

definition network_error :: "int \<Rightarrow> AxiosError \<Rightarrow> checker_state \<Rightarrow> checker_state" where
  "network_error t error st =
     (let st1 = log Err [(''key'', LStr (hash (the_key st))), (''error'', LStr (message error))]
                  ''Network error while checking key; trying this key again in a minute.'' st;
          oneMinute = 10 * 1000;
          next = t - (KEY_CHECK_PERIOD - oneMinute)
      in updateKey (hash (the_key st1)) (no_patch\<lparr>set_lastChecked := Some next\<rparr>) st1)"

text \<open>Lines 99 to 159: the body of the \<^verbatim>\<open>if\<close>, for an error with a response.\<close>

definition handle_status :: "int \<Rightarrow> jsval response \<Rightarrow> checker_state \<Rightarrow> checker_state" where
  "handle_status t r st =
     (let httpStatus = status r;
          err = opt_member (response_data r) ''error'';
          h = hash (the_key st);
          info = [(''key'', LStr h),
                    (''status'', LVal (opt_member err ''status'')),
                    (''code'', LVal (opt_member err ''code'')),
                    (''message'', LVal (opt_member err ''message'')),
                    (''details'', LVal (opt_member err ''details''))];
          text = stringify_template err;
          unexpected =
            updateKey h (no_patch\<lparr>set_lastChecked := Some t\<rparr>)
              (log Err info
                 ''Encountered unexpected error status while checking key. This may indicate a change in the API; please report this.''
                 st)
      in
      if httpStatus = 400 then
        (if string_match text (join ''|'' (map RegExp_toString keyDeadMsgs_400))
         then updateKey h disable_and_revoke
                (log Warn [(''key'', LStr h), (''error'', LStr text)]
                   ''Key check returned a non-transient 400 error. Disabling key.'' st)
         else unexpected)
      else if httpStatus = 401 \<or> httpStatus = 403 then
        updateKey h disable_and_revoke
          (log Warn info ''Key check returned Forbidden/Unauthorized error. Disabling key.'' st)
      else if httpStatus = 429 then
        (if string_match text (join ''|'' (map RegExp_toString keyDeadMsgs_429))
         then updateKey h disable_and_revoke
                (log Warn [(''key'', LStr h), (''error'', LStr text)]
                   ''Key check returned a non-transient 429 error. Disabling key.'' st)
         else updateKey h (no_patch\<lparr>set_lastChecked := Some (t - (KEY_CHECK_PERIOD - 60 * 1000))\<rparr>)
                (log Warn info ''Key is rate limited. Rechecking key in 1 minute.'' st))
      else unexpected)"

definition handleAxiosError :: "int \<Rightarrow> AxiosError \<Rightarrow> checker_state \<Rightarrow> checker_state" where
  "handleAxiosError t error st =
     (case response error of
        None \<Rightarrow> network_error t error st
      | Some r \<Rightarrow>
          if errorIsGoogleAIError error then handle_status t r st
          else network_error t error st)"

text \<open>
  Modelled from the spec: the scheduler's check of one key, whose base class is not among
  the sources. It runs the probe and hands "any failure raised by the probe" to the
  error classifier (section 4.1).
\<close>

definition checkKey :: "world \<Rightarrow> checker_state \<Rightarrow> checker_state" where
  "checkKey w st =
     (case testKeyOrFail w st of
        (Inl e, st1) \<Rightarrow> handleAxiosError (now w) e st1
      | (Inr u, st1) \<Rightarrow> st1)"

section \<open>Example inputs\<close>

text \<open>
  The inputs of the witnesses and counterexamples below. \<open>example_runtime j\<close> is a
  runtime that knows one frame, the line \<^verbatim>\<open>data: \<close> followed by the serialisation of
  \<open>j\<close>: its frame parser drops the field name and its \<^verbatim>\<open>JSON.parse\<close> reads the payload back
  as \<open>j\<close>. The frames below hold their candidates in an array, so the conversion
  \<open>loose_gt0\<close> is never consulted.
\<close>

definition example_runtime :: "json \<Rightarrow> runtime" where
  "example_runtime j =
     \<lparr>parseEvent = (\<lambda>frame. \<lparr>data = drop 6 frame\<rparr>),
      JSON_parse = (\<lambda>s. if s = JSON_stringify j then Some j else None),
      loose_gt0 = (\<lambda>v. False),
      Date_now = 1700000000000\<rparr>"

definition example_params :: "json \<Rightarrow> int \<Rightarrow> params" where
  "example_params j i =
     \<lparr>params_data = ''data: '' @ JSON_stringify j, index = i,
      fallbackId = ''abc'', fallbackModel = ''gemini-pro''\<rparr>"

definition hello_part :: json where
  "hello_part = JObj [(''text'', JStr ''Assistant: Hello there'')]"

definition hello_content :: json where
  "hello_content = JObj [(''parts'', JArr [hello_part]), (''role'', JStr ''model'')]"

definition hello_candidate :: json where
  "hello_candidate = JObj [(''content'', hello_content), (''index'', JNum ''0'')]"

definition hello_event :: json where
  "hello_event = JObj [(''candidates'', JArr [hello_candidate])]"

definition null_candidate_event :: json where
  "null_candidate_event = JObj [(''candidates'', JArr [JNull])]"

definition numeric_text_event :: json where
  "numeric_text_event =
     JObj [(''candidates'',
            JArr [JObj [(''content'', JObj [(''parts'', JArr [JObj [(''text'', JNum ''1'')]])])]])]"

definition safety_ratings :: json where
  "safety_ratings =
     JArr [JObj [(''category'', JStr ''HARM_CATEGORY_DANGEROUS_CONTENT''),
                 (''probability'', JStr ''HIGH'')]]"

definition blocked_bare_candidate :: json where
  "blocked_bare_candidate =
     JObj [(''finishReason'', JStr ''SAFETY''), (''index'', JNum ''0''),
           (''safetyRatings'', safety_ratings)]"

definition blocked_bare_event :: json where
  "blocked_bare_event = JObj [(''candidates'', JArr [blocked_bare_candidate])]"

definition blocked_candidate :: json where
  "blocked_candidate =
     JObj [(''content'', JObj [(''parts'', JArr []), (''role'', JStr ''model'')]),
           (''finishReason'', JStr ''SAFETY''), (''index'', JNum ''0''),
           (''safetyRatings'', safety_ratings)]"

definition blocked_event :: json where
  "blocked_event = JObj [(''candidates'', JArr [blocked_candidate])]"

definition two_line_text :: string where
  "two_line_text = ''Sure.'' @ [CHR 0x0A] @ ''Note: done''"

definition two_line_part :: json where
  "two_line_part = JObj [(''text'', JStr two_line_text)]"

definition two_line_candidate :: json where
  "two_line_candidate =
     JObj [(''content'', JObj [(''parts'', JArr [two_line_part]), (''role'', JStr ''model'')]),
           (''index'', JNum ''0'')]"

definition padded_text :: string where
  "padded_text = '' Bot:  Hi there '' @ [CHR 0x0A]"

definition padded_part :: json where
  "padded_part = JObj [(''text'', JStr padded_text)]"

definition padded_candidate :: json where
  "padded_candidate =
     JObj [(''content'', JObj [(''parts'', JArr [padded_part]), (''role'', JStr ''model'')]),
           (''index'', JNum ''0'')]"

definition padded_event :: json where
  "padded_event = JObj [(''candidates'', JArr [padded_candidate])]"

definition two_line_event :: json where
  "two_line_event = JObj [(''candidates'', JArr [two_line_candidate])]"

definition example_key :: GoogleAIKey where
  "example_key =
     \<lparr>key = ''AIzaSyExample'', hash = ''goo-1a2b'', isDisabled = False, isRevoked = False,
      lastChecked = 0, modelFamilies = [''gemini-pro''], modelIds = []\<rparr>"

definition example_state :: checker_state where
  "example_state = \<lparr>the_key = example_key, effects = []\<rparr>"

definition invalid_key_error :: json where
  "invalid_key_error =
     JObj [(''code'', JNum ''400''),
           (''message'', JStr ''API key not valid. Please pass a valid API key.''),
           (''status'', JStr ''INVALID_ARGUMENT'')]"

definition invalid_key_failure :: AxiosError where
  "invalid_key_failure =
     \<lparr>response = Some \<lparr>status = 400, response_data = Some (JObj [(''error'', invalid_key_error)])\<rparr>,
      message = ''Request failed with status code 400''\<rparr>"

definition zero_quota_error :: json where
  "zero_quota_error =
     JObj [(''code'', JNum ''429''),
           (''message'', JStr ''Quota exceeded''),
           (''status'', JStr ''RESOURCE_EXHAUSTED''),
           (''details'', JArr [JObj [(''metadata'', JObj [(''quota_limit_value'', JStr ''0'')])]])]"

definition zero_quota_failure :: AxiosError where
  "zero_quota_failure =
     \<lparr>response = Some \<lparr>status = 429, response_data = Some (JObj [(''error'', zero_quota_error)])\<rparr>,
      message = ''Request failed with status code 429''\<rparr>"

definition gateway_failure :: AxiosError where
  "gateway_failure =
     \<lparr>response = Some \<lparr>status = 503, response_data = Some (JStr ''Service Unavailable'')\<rparr>,
      message = ''Request failed with status code 503''\<rparr>"

definition timeout_failure :: AxiosError where
  "timeout_failure = \<lparr>response = None, message = ''timeout of 10000ms exceeded''\<rparr>"

definition example_now :: int where
  "example_now = 1700000000000"

definition example_models :: "model_entry list" where
  "example_models =
     [\<lparr>name = ''models/gemini-pro''\<rparr>, \<lparr>name = ''models/gemini-pro-vision''\<rparr>,
      \<lparr>name = ''models/gemini-1.5-pro-latest''\<rparr>]"

definition example_classifier :: "string \<Rightarrow> GoogleAIModelFamily" where
  "example_classifier n = (if n = ''models/gemini-1.5-pro-latest'' then ''gemini-ultra'' else ''gemini-pro'')"

definition example_world :: "reply \<Rightarrow> world" where
  "example_world r =
     \<lparr>list_models = Inr \<lparr>status = 200, response_data = \<lparr>models = example_models\<rparr>\<rparr>,
      generate_content = r,
      getGoogleAIModelFamily = example_classifier,
      now = example_now\<rparr>"

definition ok_reply :: reply where
  "ok_reply = Response \<lparr>status = 200, response_data = Some (JObj [(''candidates'', JArr [])])\<rparr>"

definition forbidden_response :: "jsval response" where
  "forbidden_response =
     \<lparr>status = 403,
      response_data = Some (JObj [(''error'', JObj [(''code'', JNum ''403''),
                                                    (''message'', JStr ''Permission denied''),
                                                    (''status'', JStr ''PERMISSION_DENIED'')])])\<rparr>"

section \<open>Facts about the values\<close>

lemma substitute_plain: "CHR 0x24 \<notin> set r \<Longrightarrow> substitute m b a r = r"
  by (induction m b a r rule: substitute.induct) auto

lemma generation_url_plain:
  "CHR 0x24 \<notin> set k \<Longrightarrow>
   js_replace GENERATE_CONTENT_URL ''%KEY%'' k =
     ''https://generativelanguage.googleapis.com/v1beta/models/gemini-1.5-pro-latest:generateContent?key='' @ k"
  by (simp add: js_replace_def GENERATE_CONTENT_URL_def substitute_plain)

lemma generation_url_pattern_key:
  "js_replace GENERATE_CONTENT_URL ''%KEY%'' [CHR ''a'', CHR 0x24, CHR 0x26, CHR ''b''] =
     ''https://generativelanguage.googleapis.com/v1beta/models/gemini-1.5-pro-latest:generateContent?key=a%KEY%b''"
  by (simp add: js_replace_def GENERATE_CONTENT_URL_def)

lemma js_trim_trimmed: "whitespace_trimmed s (js_trim s)"
proof -
  define t where "t = dropWhile is_whitespace s"
  define d where "d = dropWhile is_whitespace (rev t)"
  define a where "a = takeWhile is_whitespace s"
  define b where "b = rev (takeWhile is_whitespace (rev t))"
  have u: "js_trim s = rev d"
    by (simp add: js_trim_def d_def t_def)
  have "rev t = takeWhile is_whitespace (rev t) @ d"
    by (simp add: d_def)
  then have "rev (rev t) = rev (takeWhile is_whitespace (rev t) @ d)"
    by (rule arg_cong)
  then have t: "t = rev d @ b"
    by (simp add: b_def)
  have "s = a @ t"
    unfolding a_def t_def by simp
  then have s: "s = a @ rev d @ b"
    using t by simp
  have wa: "list_all is_whitespace a"
    by (auto simp add: a_def list_all_iff dest: set_takeWhileD)
  have wb: "list_all is_whitespace b"
    by (auto simp add: b_def list_all_iff dest: set_takeWhileD)
  have ends: "\<not> is_whitespace (hd (rev d)) \<and> \<not> is_whitespace (last (rev d))" if "rev d \<noteq> []"
  proof -
    from that have d: "d \<noteq> []" by simp
    then have "\<not> is_whitespace (hd d)"
      unfolding d_def by (rule hd_dropWhile)
    then have l: "\<not> is_whitespace (last (rev d))"
      using d by (simp add: last_rev)
    from that t have "t \<noteq> []" and "hd t = hd (rev d)"
      by simp_all
    then have "\<not> is_whitespace (hd (rev d))"
      using hd_dropWhile [of is_whitespace s] by (simp add: t_def)
    with l show ?thesis by simp
  qed
  show ?thesis
    unfolding whitespace_trimmed_def u
    using s wa wb ends by blast
qed

lemma whitespace_trimmed_unique:
  assumes "whitespace_trimmed s u"
  shows "u = js_trim s"
proof -
  from assms obtain a b where s: "s = a @ u @ b"
    and wa: "list_all is_whitespace a" and wb: "list_all is_whitespace b"
    and ends: "u = [] \<or> (\<not> is_whitespace (hd u) \<and> \<not> is_whitespace (last u))"
    unfolding whitespace_trimmed_def by blast
  have front: "dropWhile is_whitespace s = dropWhile is_whitespace (u @ b)"
    using wa by (simp add: s list_all_iff)
  show ?thesis
  proof (cases "u = []")
    case True
    then have "\<forall>x\<in>set s. is_whitespace x"
      using wa wb by (auto simp add: s list_all_iff)
    then have "dropWhile is_whitespace s = []"
      by (simp add: dropWhile_eq_Nil_conv)
    then have "js_trim s = []"
      unfolding js_trim_def by (simp only: rev.simps dropWhile.simps)
    with True show ?thesis by simp
  next
    case False
    with ends have h: "\<not> is_whitespace (hd u)" and l: "\<not> is_whitespace (last u)"
      by simp_all
    from False h have "dropWhile is_whitespace (u @ b) = u @ b"
      by (cases u) simp_all
    then have "rev (dropWhile is_whitespace s) = rev b @ rev u"
      using front by simp
    moreover have "dropWhile is_whitespace (rev b @ rev u) = dropWhile is_whitespace (rev u)"
      using wb by (intro dropWhile_append2) (simp add: list_all_iff)
    moreover have "dropWhile is_whitespace (rev u) = rev u"
      using False l by (cases "rev u") (auto simp add: hd_rev)
    ultimately show ?thesis
      by (simp add: js_trim_def)
  qed
qed

lemma show_nat_digits:
  "c \<in> set (show_nat n) \<Longrightarrow> 48 \<le> (of_char c :: nat) \<and> (of_char c :: nat) \<le> 57"
proof (induction n arbitrary: c rule: show_nat.induct)
  case (1 n)
  show ?case
  proof (cases "n < 10")
    case True
    with "1.prems" have "c = char_of (48 + n)"
      by (simp add: show_nat.simps [of n])
    with True show ?thesis by simp
  next
    case False
    with "1.prems" have "c \<in> set (show_nat (n div 10)) \<or> c = char_of (48 + n mod 10)"
      by (auto simp add: show_nat.simps [of n])
    then show ?thesis
    proof
      assume "c \<in> set (show_nat (n div 10))"
      with "1.IH" False show ?thesis by blast
    next
      assume "c = char_of (48 + n mod 10)"
      moreover have "n mod 10 < 10" by simp
      ultimately show ?thesis by simp
    qed
  qed
qed

lemma show_nat_nonempty: "show_nat n \<noteq> []"
  by (simp add: show_nat.simps [of n])

lemma show_nat_eq_0: "show_nat n = ''0'' \<longleftrightarrow> n = 0"
proof (cases "n < 10")
  case True
  have "char_of (48 + n) = CHR ''0'' \<longleftrightarrow> (of_char (char_of (48 + n) :: char) :: nat) = of_char CHR ''0''"
    by (metis of_char_eq_iff)
  with True show ?thesis
    by (simp add: show_nat.simps [of n])
next
  case False
  then have "length (show_nat n) \<ge> 2"
    using show_nat_nonempty [of "n div 10"]
    by (cases "show_nat (n div 10)") (simp_all add: show_nat.simps [of n])
  with False show ?thesis by auto
qed

lemma num_positive_show_nat: "num_positive (show_nat n) \<longleftrightarrow> 0 < n"
proof -
  obtain c cs where cs: "show_nat n = c # cs"
    using show_nat_nonempty [of n] by (cases "show_nat n") auto
  then have d: "48 \<le> (of_char c :: nat) \<and> (of_char c :: nat) \<le> 57"
    using show_nat_digits [of c n] by simp
  have "c \<noteq> CHR ''-''" "c \<noteq> CHR ''N''"
    using d by auto
  then show ?thesis
    using show_nat_eq_0 [of n] cs by (auto simp: num_positive_def)
qed

lemma member_defined: "j \<noteq> JNull \<Longrightarrow> member (Some j) k = Inr (js_prop j k)"
  by (cases j) simp_all

lemma opt_member_defined: "j \<noteq> JNull \<Longrightarrow> opt_member (Some j) k = js_prop j k"
  by (cases j) simp_all

lemma js_prop_defined: "js_prop j k = Some v \<Longrightarrow> j \<noteq> JNull"
  by (cases j) simp_all

lemma member_prop: "js_prop j k = Some v \<Longrightarrow> member (Some j) k = Inr (Some v)"
  using member_defined [of j k] js_prop_defined [of j k v] by simp

lemma opt_member_prop: "js_prop j k = Some v \<Longrightarrow> opt_member (Some j) k = Some v"
  using opt_member_defined [of j k] js_prop_defined [of j k v] by simp

lemma candidates_object: "js_prop ev ''candidates'' = Some v \<Longrightarrow> truthy (Some ev)"
  by (cases ev) (simp_all split: if_splits)

lemma asCompletion_array:
  assumes "JSON_parse rt (data sse) = Some ev"
      and "js_prop ev ''candidates'' = Some (JArr (c # cs))"
  shows "asCompletion rt sse = (ev, [])"
  using assms
  by (simp add: asCompletion_def asCompletion_try_def bindE_def member_prop
      num_positive_show_nat)

lemma completion_frame:
  assumes "data (parseEvent rt (params_data p)) \<noteq> []"
      and "data (parseEvent rt (params_data p)) \<noteq> ''[DONE]''"
      and "JSON_parse rt (data (parseEvent rt (params_data p))) = Some ev"
      and "js_prop ev ''candidates'' = Some (JArr (c # cs))"
  shows "googleAIToOpenAI rt p = (toChunk rt p ev, [])"
  using assms asCompletion_array [of rt "parseEvent rt (params_data p)" ev c cs]
    candidates_object [of ev "JArr (c # cs)"]
  by (simp add: googleAIToOpenAI_def Let_def)

lemma firstCandidate_array:
  "js_prop ev ''candidates'' = Some (JArr (c # cs)) \<Longrightarrow> firstCandidate ev = Inr (Some c)"
  by (simp add: firstCandidate_def bindE_def member_prop)

lemma strip_hello:
  "strip_first_chunk (JStr ''Assistant: Hello there'') = Inr (JStr ''Hello there'')"
  by (simp add: replace_speaker_def js_trim_def is_line_terminator_def is_whitespace_def)

section \<open>The transcoder's claims\<close>

text \<open>
  C5. A frame whose first candidate's first content part carries the text
  \<^verbatim>\<open>Assistant: Hello there\<close> is emitted with \<^verbatim>\<open>delta.content\<close> equal to \<^verbatim>\<open>Hello there\<close> at
  index 0 and with the text unchanged, speaker prefix included, at every other index.
\<close>

theorem speaker_prefix_only_at_index_0:
  assumes "data (parseEvent rt (params_data p)) \<noteq> []"
      and "data (parseEvent rt (params_data p)) \<noteq> ''[DONE]''"
      and "JSON_parse rt (data (parseEvent rt (params_data p))) = Some ev"
      and "js_prop ev ''candidates'' = Some (JArr (c # cs))"
      and "js_prop c ''content'' = Some content"
      and "js_prop content ''parts'' = Some (JArr (part # parts))"
      and "js_prop part ''text'' = Some (JStr ''Assistant: Hello there'')"
  shows "emitted_content (googleAIToOpenAI rt p) =
           Some (JStr (if index p = 0 then ''Hello there'' else ''Assistant: Hello there''))"
proof -
  have c: "c \<noteq> JNull"
    using assms(5) by (rule js_prop_defined)
  have extracted: "extracted_text ev = Inr (JStr ''Assistant: Hello there'')"
    using assms(4-7)
    by (simp add: extracted_text_def content_parts_def firstCandidate_array bindE_def
        member_prop opt_member_prop js_or_def)
  have safety: "isSafetyStop ev = Inr False"
    using assms(4-6) c
    by (simp add: isSafetyStop_def firstCandidate_array bindE_def member_defined
        opt_member_prop show_nat_eq_0 Let_def)
  have "emitted_content (toChunk rt p ev, []) =
          Some (JStr (if index p = 0 then ''Hello there'' else ''Assistant: Hello there''))"
    using assms(4) c extracted safety strip_hello
    by (simp add: toChunk_def emitted_content_def firstCandidate_array bindE_def
        member_defined)
  then show ?thesis
    using completion_frame [OF assms(1-4)] by simp
qed

lemma example_frame:
  "data (parseEvent (example_runtime j) (params_data (example_params j i))) = JSON_stringify j"
  by (simp add: example_runtime_def example_params_def)

lemma example_parse:
  "JSON_parse (example_runtime j) (JSON_stringify j) = Some j"
  by (simp add: example_runtime_def)

theorem speaker_prefix_witness:
  "emitted_content (googleAIToOpenAI (example_runtime hello_event) (example_params hello_event 0))
     = Some (JStr ''Hello there'')
   \<and> emitted_content (googleAIToOpenAI (example_runtime hello_event) (example_params hello_event 1))
     = Some (JStr ''Assistant: Hello there'')"
proof -
  have frame: "JSON_stringify hello_event \<noteq> []" "JSON_stringify hello_event \<noteq> ''[DONE]''"
    by (simp_all add: hello_event_def)
  have shape:
    "js_prop hello_event ''candidates'' = Some (JArr (hello_candidate # []))"
    "js_prop hello_candidate ''content'' = Some hello_content"
    "js_prop hello_content ''parts'' = Some (JArr (hello_part # []))"
    "js_prop hello_part ''text'' = Some (JStr ''Assistant: Hello there'')"
    by (simp_all add: hello_event_def hello_candidate_def hello_content_def hello_part_def)
  have idx: "index (example_params hello_event 0) = 0" "index (example_params hello_event 1) \<noteq> 0"
    by (simp_all add: example_params_def)
  show ?thesis
    using speaker_prefix_only_at_index_0
      [of "example_runtime hello_event" "example_params hello_event 0" hello_event
          hello_candidate "[]" hello_content hello_part "[]"]
      speaker_prefix_only_at_index_0
      [of "example_runtime hello_event" "example_params hello_event 1" hello_event
          hello_candidate "[]" hello_content hello_part "[]"]
      frame shape idx
    by (simp add: example_frame example_parse)
qed

lemma skip_end_of_stream:
  "data (parseEvent rt (params_data p)) = [] \<or> data (parseEvent rt (params_data p)) = ''[DONE]''
   \<Longrightarrow> googleAIToOpenAI rt p = (Inr skip, [])"
  by (auto simp add: googleAIToOpenAI_def Let_def)

lemma asCompletion_null:
  "asCompletion_try rt sse = Inl e \<Longrightarrow>
   asCompletion rt sse =
     (JNull, [Log Warn [(''error'', LExn e), (''event'', LStr (data sse))] ''Received invalid event''])"
  by (simp add: asCompletion_def)

lemma skip_invalid_frame:
  assumes "data (parseEvent rt (params_data p)) \<noteq> []"
      and "data (parseEvent rt (params_data p)) \<noteq> ''[DONE]''"
      and "asCompletion_try rt (parseEvent rt (params_data p)) = Inl e"
  shows "googleAIToOpenAI rt p =
           (Inr skip,
            [Log Warn [(''error'', LExn e), (''event'', LStr (data (parseEvent rt (params_data p))))]
               ''Received invalid event''])"
  using assms by (simp add: googleAIToOpenAI_def Let_def asCompletion_null)

lemma not_json_is_invalid:
  "JSON_parse rt (data sse) = None \<Longrightarrow> asCompletion_try rt sse = Inl SyntaxError"
  by (simp add: asCompletion_try_def)

lemma no_candidates_is_invalid:
  assumes "JSON_parse rt (data sse) = Some ev"
      and "js_prop ev ''candidates'' = None \<or> js_prop ev ''candidates'' = Some (JArr [])"
  shows "asCompletion_try rt sse = Inl (if ev = JNull then TypeError else Error ''Missing required fields'')"
  using assms
  by (cases "ev = JNull")
    (auto simp add: asCompletion_try_def bindE_def member_defined num_positive_show_nat)

text \<open>
  C7. The transcoder does not return normally on every frame. The frame
  \<^verbatim>\<open>data: {"candidates":[null]}\<close> passes \<^verbatim>\<open>asCompletion\<close>, whose check looks at the length
  of \<^verbatim>\<open>candidates\<close> only, and the read of \<^verbatim>\<open>content\<close> on the null candidate then throws a
  TypeError outside any \<^verbatim>\<open>try\<close>: no skip result, no chunk and no log line.
\<close>

theorem null_candidate_throws:
  "params_data (example_params null_candidate_event 0) = ''data: {\"candidates\":[null]}''
   \<and> googleAIToOpenAI (example_runtime null_candidate_event) (example_params null_candidate_event 0)
       = (Inl TypeError, [])"
  by (simp add: null_candidate_event_def example_params_def example_runtime_def
      json_quote_def json_escape_def join_def googleAIToOpenAI_def asCompletion_def
      asCompletion_try_def bindE_def num_positive_show_nat toChunk_def
      extracted_text_def content_parts_def firstCandidate_def)

lemma numeric_text_throws:
  "googleAIToOpenAI (example_runtime numeric_text_event) (example_params numeric_text_event 0)
       = (Inl TypeError, [])"
  by (simp add: numeric_text_event_def example_params_def example_runtime_def
      json_quote_def json_escape_def join_def googleAIToOpenAI_def asCompletion_def
      asCompletion_try_def bindE_def num_positive_show_nat toChunk_def
      extracted_text_def content_parts_def firstCandidate_def isSafetyStop_def js_or_def)

lemma js_or_defined: "js_or a (JArr []) \<noteq> JNull"
  by (cases a) (auto simp add: js_or_def)

lemma index0_defined: "j \<noteq> JNull \<Longrightarrow> index0 (Some j) = Inr (js_index0 j)"
  by (cases j) simp_all

lemma content_parts_defined:
  assumes "js_prop ev ''candidates'' = Some (JArr (c # cs))" and "c \<noteq> JNull"
  shows "content_parts ev = Inr (js_or (opt_member (js_prop c ''content'') ''parts'') (JArr []))"
  using assms by (simp add: content_parts_def firstCandidate_array bindE_def member_defined)

lemma extracted_text_defined:
  assumes "js_prop ev ''candidates'' = Some (JArr (c # cs))" and "c \<noteq> JNull"
  shows "extracted_text ev =
           Inr (coalesce
                  (opt_member
                     (js_index0 (js_or (opt_member (js_prop c ''content'') ''parts'') (JArr [])))
                     ''text'')
                  (JStr []))"
  using assms js_or_defined [of "opt_member (js_prop c ''content'') ''parts''"]
  by (simp add: extracted_text_def content_parts_defined bindE_def index0_defined)

lemma isSafetyStop_defined:
  assumes "js_prop ev ''candidates'' = Some (JArr (c # cs))" and "c \<noteq> JNull"
  shows "isSafetyStop ev =
           Inr ((coalesce (js_prop c ''finishReason'') (JStr []) = JStr ''SAFETY''
                 \<or> coalesce (js_prop c ''finishReason'') (JStr []) = JStr ''OTHER'')
                \<and> opt_member (opt_member (js_prop c ''content'') ''parts'') ''length''
                    = Some (JNum ''0''))"
  using assms
  by (simp add: isSafetyStop_def firstCandidate_array bindE_def member_defined Let_def)

lemma coalesce_is_string:
  assumes "s \<noteq> []"
  shows "coalesce v (JStr []) = JStr s \<longleftrightarrow> v = Some (JStr s)"
proof (cases v)
  case None
  then show ?thesis using assms by auto
next
  case (Some j)
  then show ?thesis using assms by (cases j) auto
qed

lemma safety_warning_defined:
  assumes "js_prop ev ''candidates'' = Some (JArr (c # cs))" and "c \<noteq> JNull"
  shows "safety_warning ev =
           Inr (JStr (''[Proxy Warning] Gemini safety filter triggered: ''
                      @ stringify_template (js_prop c ''safetyRatings'')))"
  using assms
  by (simp add: safety_warning_def firstCandidate_array bindE_def member_defined)

lemma toChunk_later_index:
  assumes "js_prop ev ''candidates'' = Some (JArr (c # cs))" and "c \<noteq> JNull"
      and "index p \<noteq> 0"
      and "extracted_text ev = Inr t" and "isSafetyStop ev = Inr b"
  shows "emitted_content (toChunk rt p ev, logs) =
           Some (if b
                 then JStr (''[Proxy Warning] Gemini safety filter triggered: ''
                            @ stringify_template (js_prop c ''safetyRatings''))
                 else t)"
  using assms safety_warning_defined [OF assms(1,2)]
  by (simp add: toChunk_def emitted_content_def firstCandidate_array bindE_def member_defined)

lemma toChunk_first_index:
  assumes "js_prop ev ''candidates'' = Some (JArr (c # cs))" and "c \<noteq> JNull"
      and "index p = 0"
      and "extracted_text ev = Inr t" and "isSafetyStop ev = Inr b"
      and "strip_first_chunk
             (if b
              then JStr (''[Proxy Warning] Gemini safety filter triggered: ''
                         @ stringify_template (js_prop c ''safetyRatings''))
              else t) = Inr u"
  shows "emitted_content (toChunk rt p ev, logs) = Some u"
  using assms safety_warning_defined [OF assms(1,2)]
  by (cases b)
    (simp_all add: toChunk_def emitted_content_def firstCandidate_array bindE_def member_defined)

lemma toChunk_first_index_any:
  assumes "js_prop ev ''candidates'' = Some (JArr (c # cs))" and "c \<noteq> JNull"
      and "index p = 0"
      and "extracted_text ev = Inr t" and "isSafetyStop ev = Inr b"
  shows "emitted_content (toChunk rt p ev, logs) =
           (case strip_first_chunk
                   (if b
                    then JStr (''[Proxy Warning] Gemini safety filter triggered: ''
                               @ stringify_template (js_prop c ''safetyRatings''))
                    else t) of
              Inl e \<Rightarrow> None
            | Inr u \<Rightarrow> Some u)"
proof (cases "strip_first_chunk
                   (if b
                    then JStr (''[Proxy Warning] Gemini safety filter triggered: ''
                               @ stringify_template (js_prop c ''safetyRatings''))
                    else t)")
  case (Inl e)
  then show ?thesis
    using assms safety_warning_defined [OF assms(1,2)]
    by (cases b) (simp_all add: toChunk_def emitted_content_def bindE_def)
next
  case (Inr u)
  then show ?thesis
    using toChunk_first_index [OF assms, of u] by simp
qed

lemma strip_first_chunk_trimmed:
  assumes "strip_first_chunk x = Inr u"
  shows "\<exists>s. x = JStr s \<and> u = JStr (js_trim (replace_speaker s))"
  using assms by (cases x) simp_all

lemma trimmed_ends:
  "js_trim s = [] \<or> (\<not> is_whitespace (hd (js_trim s)) \<and> \<not> is_whitespace (last (js_trim s)))"
  using js_trim_trimmed [of s] unfolding whitespace_trimmed_def by blast

lemma strip_warning:
  "strip_first_chunk (JStr (''[Proxy Warning] Gemini safety filter triggered: '' @ s))
     = Inr (JStr (js_trim s))"
  by (simp add: replace_speaker_def is_line_terminator_def)

lemma js_trim_array: "js_trim (JSON_stringify (JArr xs)) = JSON_stringify (JArr xs)"
  by (simp add: js_trim_def is_whitespace_def)

lemma after_speaker_first:
  assumes "\<not> contains '': '' (pre @ '':'')"
      and "list_all (\<lambda>ch. \<not> is_line_terminator ch) pre"
  shows "after_speaker (pre @ '': '' @ rest) = Some rest"
  using assms
proof (induction pre)
  case Nil
  show ?case by simp
next
  case (Cons a pre)
  define tail where "tail = pre @ '': '' @ rest"
  have later: "\<not> contains '': '' (pre @ '':'')" and here: "\<not> starts_with '': '' (a # pre @ '':'')"
    using Cons.prems(1) by simp_all
  have "\<not> (a = CHR '':'' \<and> take 1 tail = '' '')"
    using here by (cases pre) (auto simp add: tail_def)
  moreover have "\<not> is_line_terminator a"
    using Cons.prems(2) by simp
  moreover have "after_speaker tail = Some rest"
    using Cons.IH later Cons.prems(2) by (simp add: tail_def)
  ultimately have "after_speaker (a # tail) = Some rest"
    by auto
  then show ?case
    by (simp add: tail_def)
qed

lemma after_speaker_none:
  "\<not> contains '': '' (takeWhile (\<lambda>ch. \<not> is_line_terminator ch) s) \<Longrightarrow> after_speaker s = None"
proof (induction s)
  case Nil
  show ?case by simp
next
  case (Cons a s)
  show ?case
  proof (cases "is_line_terminator a")
    case True
    then have "a \<noteq> CHR '':''"
      by (auto simp add: is_line_terminator_def)
    with True show ?thesis by simp
  next
    case False
    with Cons.prems
    have here: "\<not> starts_with '': '' (a # takeWhile (\<lambda>ch. \<not> is_line_terminator ch) s)"
      and later: "\<not> contains '': '' (takeWhile (\<lambda>ch. \<not> is_line_terminator ch) s)"
      by simp_all
    have "\<not> (a = CHR '':'' \<and> take 1 s = '' '')"
    proof
      assume "a = CHR '':'' \<and> take 1 s = '' ''"
      then obtain s' where "a = CHR '':''" "s = CHR '' '' # s'"
        by (cases s) auto
      with here show False
        by (simp add: is_line_terminator_def)
    qed
    with False Cons.IH [OF later] show ?thesis by simp
  qed
qed

lemma text_frame:
  assumes "data (parseEvent rt (params_data p)) \<noteq> []"
      and "data (parseEvent rt (params_data p)) \<noteq> ''[DONE]''"
      and "JSON_parse rt (data (parseEvent rt (params_data p))) = Some ev"
      and "js_prop ev ''candidates'' = Some (JArr (c # cs))"
      and "c \<noteq> JNull"
      and "opt_member (js_prop c ''content'') ''parts'' = Some (JArr (part # ps))"
      and "js_prop part ''text'' = Some (JStr s)"
  shows "emitted_content (googleAIToOpenAI rt p) =
           Some (JStr (if index p = 0 then js_trim (replace_speaker s) else s))"
proof -
  have extracted: "extracted_text ev = Inr (JStr s)"
    using assms(6,7) by (simp add: extracted_text_defined [OF assms(4,5)] js_or_def opt_member_prop)
  have safety: "isSafetyStop ev = Inr False"
    using assms(6) by (simp add: isSafetyStop_defined [OF assms(4,5)] show_nat_eq_0)
  have "emitted_content (toChunk rt p ev, []) =
          Some (JStr (if index p = 0 then js_trim (replace_speaker s) else s))"
  proof (cases "index p = 0")
    case True
    then show ?thesis
      using toChunk_first_index [OF assms(4,5) True extracted safety, of "JStr (js_trim (replace_speaker s))"]
      by simp
  next
    case False
    then show ?thesis
      using toChunk_later_index [OF assms(4,5) False extracted safety] by simp
  qed
  then show ?thesis
    using completion_frame [OF assms(1-4)] by simp
qed

text \<open>
  Where the override does hold. For a frame whose first candidate has content parts that
  are absent or an array: the text is replaced by the warning, which ends in the
  serialised \<^verbatim>\<open>safetyRatings\<close>, exactly when the finish reason is SAFETY or OTHER and
  the candidate has a content whose \<^verbatim>\<open>parts\<close> are present and an empty array. After the
  first frame the text, replaced or not, is the emitted \<^verbatim>\<open>delta.content\<close>; in the first
  frame it goes through the strip, which takes the warning's own prefix away.
\<close>

lemma safety_override_on_empty_parts:
  assumes "data (parseEvent rt (params_data p)) \<noteq> []"
      and "data (parseEvent rt (params_data p)) \<noteq> ''[DONE]''"
      and "JSON_parse rt (data (parseEvent rt (params_data p))) = Some ev"
      and "js_prop ev ''candidates'' = Some (JArr (c # cs))"
      and "c \<noteq> JNull"
      and "opt_member (js_prop c ''content'') ''parts'' = None
           \<or> opt_member (js_prop c ''content'') ''parts'' = Some (JArr ps)"
      and "extracted_text ev = Inr t"
  shows "(index p \<noteq> 0 \<longrightarrow>
            emitted_content (googleAIToOpenAI rt p) =
              Some (if (js_prop c ''finishReason'' = Some (JStr ''SAFETY'')
                        \<or> js_prop c ''finishReason'' = Some (JStr ''OTHER''))
                       \<and> opt_member (js_prop c ''content'') ''parts'' = Some (JArr [])
                    then JStr (''[Proxy Warning] Gemini safety filter triggered: ''
                               @ stringify_template (js_prop c ''safetyRatings''))
                    else t))
         \<and> (index p = 0 \<longrightarrow>
            emitted_content (googleAIToOpenAI rt p) =
              (if (js_prop c ''finishReason'' = Some (JStr ''SAFETY'')
                   \<or> js_prop c ''finishReason'' = Some (JStr ''OTHER''))
                  \<and> opt_member (js_prop c ''content'') ''parts'' = Some (JArr [])
               then Some (JStr (js_trim (stringify_template (js_prop c ''safetyRatings''))))
               else (case strip_first_chunk t of Inl e \<Rightarrow> None | Inr u \<Rightarrow> Some u)))"
proof -
  let ?stop = "(js_prop c ''finishReason'' = Some (JStr ''SAFETY'')
                \<or> js_prop c ''finishReason'' = Some (JStr ''OTHER''))
               \<and> opt_member (js_prop c ''content'') ''parts'' = Some (JArr [])"
  have "opt_member (opt_member (js_prop c ''content'') ''parts'') ''length'' = Some (JNum ''0'')
        \<longleftrightarrow> opt_member (js_prop c ''content'') ''parts'' = Some (JArr [])"
    using assms(6) by (auto simp add: show_nat_eq_0)
  then have safety: "isSafetyStop ev = Inr ?stop"
    by (simp add: isSafetyStop_defined [OF assms(4,5)] coalesce_is_string)
  have later: "emitted_content (toChunk rt p ev, []) =
                 Some (if ?stop
                       then JStr (''[Proxy Warning] Gemini safety filter triggered: ''
                                  @ stringify_template (js_prop c ''safetyRatings''))
                       else t)" if "index p \<noteq> 0"
    using toChunk_later_index [OF assms(4,5) that assms(7) safety] .
  have first: "emitted_content (toChunk rt p ev, []) =
                 (if ?stop
                  then Some (JStr (js_trim (stringify_template (js_prop c ''safetyRatings''))))
                  else (case strip_first_chunk t of Inl e \<Rightarrow> None | Inr u \<Rightarrow> Some u))"
    if "index p = 0"
    using toChunk_first_index_any [OF assms(4,5) that assms(7) safety, of rt "[]"] strip_warning
    by simp
  show ?thesis
    using later first completion_frame [OF assms(1-4)] by simp
qed

lemma example_shape:
  "data (parseEvent (example_runtime j) (params_data (example_params j i))) \<noteq> []
     \<longleftrightarrow> JSON_stringify j \<noteq> []"
  "data (parseEvent (example_runtime j) (params_data (example_params j i))) \<noteq> ''[DONE]''
     \<longleftrightarrow> JSON_stringify j \<noteq> ''[DONE]''"
  "JSON_parse (example_runtime j)
     (data (parseEvent (example_runtime j) (params_data (example_params j i)))) = Some j"
  "index (example_params j i) = i"
  by (simp_all add: example_frame example_parse) (simp add: example_params_def)

lemma safety_override_example:
  "emitted_content (googleAIToOpenAI (example_runtime blocked_event) (example_params blocked_event 1))
     = Some (JStr (''[Proxy Warning] Gemini safety filter triggered: ''
                   @ ''[{\"category\":\"HARM_CATEGORY_DANGEROUS_CONTENT\",\"probability\":\"HIGH\"}]''))
   \<and> emitted_content (googleAIToOpenAI (example_runtime blocked_event) (example_params blocked_event 0))
     = Some (JStr ''[{\"category\":\"HARM_CATEGORY_DANGEROUS_CONTENT\",\"probability\":\"HIGH\"}]'')"
proof -
  have frame: "JSON_stringify blocked_event \<noteq> []" "JSON_stringify blocked_event \<noteq> ''[DONE]''"
    by (simp_all add: blocked_event_def)
  have shape:
    "js_prop blocked_event ''candidates'' = Some (JArr (blocked_candidate # []))"
    "blocked_candidate \<noteq> JNull"
    "opt_member (js_prop blocked_candidate ''content'') ''parts'' = Some (JArr [])"
    "js_prop blocked_candidate ''finishReason'' = Some (JStr ''SAFETY'')"
    "js_prop blocked_candidate ''safetyRatings'' = Some safety_ratings"
    by (simp_all add: blocked_event_def blocked_candidate_def)
  have extracted: "extracted_text blocked_event = Inr (JStr [])"
    using shape(3) by (simp add: extracted_text_defined [OF shape(1,2)] js_or_def)
  have ratings: "JSON_stringify safety_ratings
                   = ''[{\"category\":\"HARM_CATEGORY_DANGEROUS_CONTENT\",\"probability\":\"HIGH\"}]''"
    by (simp add: safety_ratings_def json_quote_def json_escape_def join_def)
  show ?thesis
    using safety_override_on_empty_parts
      [of "example_runtime blocked_event" "example_params blocked_event 1" blocked_event
          blocked_candidate "[]" "[]" "JStr []"]
      safety_override_on_empty_parts
      [of "example_runtime blocked_event" "example_params blocked_event 0" blocked_event
          blocked_candidate "[]" "[]" "JStr []"]
      frame shape extracted ratings js_trim_array [of "[JObj [(''category'', JStr ''HARM_CATEGORY_DANGEROUS_CONTENT''), (''probability'', JStr ''HIGH'')]]"]
    by (simp add: example_shape safety_ratings_def)
qed

text \<open>
  C6. The code does not replace the text of every safety stop that carries no content
  parts. A candidate stopped for SAFETY that has no \<^verbatim>\<open>content\<close> at all has zero parts
  (line 37 computes the empty list for it), but \<^verbatim>\<open>hasNoContent\<close> compares an undefined
  length with zero and is false: the override does not fire and the emitted
  \<^verbatim>\<open>delta.content\<close> is the empty string.
\<close>

theorem safety_stop_without_content_not_overridden:
  "js_prop blocked_bare_candidate ''finishReason'' = Some (JStr ''SAFETY'')
   \<and> firstCandidate blocked_bare_event = Inr (Some blocked_bare_candidate)
   \<and> content_parts blocked_bare_event = Inr (JArr [])
   \<and> emitted_content
        (googleAIToOpenAI (example_runtime blocked_bare_event) (example_params blocked_bare_event 1))
       = Some (JStr [])"
proof -
  have frame: "JSON_stringify blocked_bare_event \<noteq> []" "JSON_stringify blocked_bare_event \<noteq> ''[DONE]''"
    by (simp_all add: blocked_bare_event_def)
  have shape:
    "js_prop blocked_bare_event ''candidates'' = Some (JArr (blocked_bare_candidate # []))"
    "blocked_bare_candidate \<noteq> JNull"
    "js_prop blocked_bare_candidate ''content'' = None"
    "js_prop blocked_bare_candidate ''finishReason'' = Some (JStr ''SAFETY'')"
    by (simp_all add: blocked_bare_event_def blocked_bare_candidate_def)
  have parts: "content_parts blocked_bare_event = Inr (JArr [])"
    using shape(3) by (simp add: content_parts_defined [OF shape(1,2)] js_or_def)
  have extracted: "extracted_text blocked_bare_event = Inr (JStr [])"
    using shape(3) by (simp add: extracted_text_defined [OF shape(1,2)] js_or_def)
  have safety: "isSafetyStop blocked_bare_event = Inr False"
    using shape(3) by (simp add: isSafetyStop_defined [OF shape(1,2)])
  have "emitted_content (toChunk (example_runtime blocked_bare_event)
          (example_params blocked_bare_event 1) blocked_bare_event, []) = Some (JStr [])"
    using toChunk_later_index [OF shape(1,2) _ extracted safety] by (simp add: example_shape)
  moreover have "googleAIToOpenAI (example_runtime blocked_bare_event) (example_params blocked_bare_event 1)
      = (toChunk (example_runtime blocked_bare_event) (example_params blocked_bare_event 1)
           blocked_bare_event, [])"
    using completion_frame [of "example_runtime blocked_bare_event"
        "example_params blocked_bare_event 1" blocked_bare_event blocked_bare_candidate "[]"]
      frame shape(1)
    by (simp add: example_shape)
  ultimately show ?thesis
    using shape parts by (simp add: firstCandidate_array)
qed

text \<open>
  C10, as amended. In the first frame (index 0) of a stream, for a first candidate that
  is not null: whatever is emitted is a text with no whitespace at either end; a safety
  stop, whose text is the warning, is emitted as the serialised \<^verbatim>\<open>safetyRatings\<close> alone,
  trimmed (and unchanged by the trim when the ratings are an array); a text whose first
  colon-space comes before any line terminator loses everything up to and including
  that colon-space, whether or not a speaker name stands there, and is trimmed; a text
  with no colon-space on its first line is only trimmed.
\<close>

theorem first_frame_strip:
  assumes "data (parseEvent rt (params_data p)) \<noteq> []"
      and "data (parseEvent rt (params_data p)) \<noteq> ''[DONE]''"
      and "JSON_parse rt (data (parseEvent rt (params_data p))) = Some ev"
      and "js_prop ev ''candidates'' = Some (JArr (c # cs))"
      and "c \<noteq> JNull"
      and "index p = 0"
  shows "((js_prop c ''finishReason'' = Some (JStr ''SAFETY'')
           \<or> js_prop c ''finishReason'' = Some (JStr ''OTHER''))
          \<and> opt_member (js_prop c ''content'') ''parts'' = Some (JArr []) \<longrightarrow>
            emitted_content (googleAIToOpenAI rt p)
              = Some (JStr (js_trim (stringify_template (js_prop c ''safetyRatings''))))
            \<and> whitespace_trimmed (stringify_template (js_prop c ''safetyRatings''))
                 (js_trim (stringify_template (js_prop c ''safetyRatings'')))
            \<and> (js_prop c ''safetyRatings'' = Some (JArr ratings) \<longrightarrow>
                 emitted_content (googleAIToOpenAI rt p)
                   = Some (JStr (JSON_stringify (JArr ratings)))))
         \<and> (opt_member (js_prop c ''content'') ''parts'' = Some (JArr (part # ps))
              \<and> js_prop part ''text'' = Some (JStr (pre @ '': '' @ rest))
              \<and> \<not> contains '': '' (pre @ '':'')
              \<and> list_all (\<lambda>ch. \<not> is_line_terminator ch) pre \<longrightarrow>
            emitted_content (googleAIToOpenAI rt p) = Some (JStr (js_trim rest))
            \<and> whitespace_trimmed rest (js_trim rest))
         \<and> (opt_member (js_prop c ''content'') ''parts'' = Some (JArr (part # ps))
              \<and> js_prop part ''text'' = Some (JStr s)
              \<and> \<not> contains '': '' (takeWhile (\<lambda>ch. \<not> is_line_terminator ch) s) \<longrightarrow>
            emitted_content (googleAIToOpenAI rt p) = Some (JStr (js_trim s))
            \<and> whitespace_trimmed s (js_trim s))
         \<and> (\<forall>u. emitted_content (googleAIToOpenAI rt p) = Some u \<longrightarrow>
               (\<exists>v. u = JStr v
                    \<and> (v = [] \<or> (\<not> is_whitespace (hd v) \<and> \<not> is_whitespace (last v)))))"
proof -
  have safety: "emitted_content (googleAIToOpenAI rt p)
          = Some (JStr (js_trim (stringify_template (js_prop c ''safetyRatings''))))"
    if stop: "(js_prop c ''finishReason'' = Some (JStr ''SAFETY'')
                 \<or> js_prop c ''finishReason'' = Some (JStr ''OTHER''))
                \<and> opt_member (js_prop c ''content'') ''parts'' = Some (JArr [])"
  proof -
    obtain t where t: "extracted_text ev = Inr t"
      using extracted_text_defined [OF assms(4,5)] by simp
    have fires: "isSafetyStop ev = Inr True"
      using stop by (auto simp add: isSafetyStop_defined [OF assms(4,5)] show_nat_eq_0)
    have "emitted_content (toChunk rt p ev, [])
            = Some (JStr (js_trim (stringify_template (js_prop c ''safetyRatings''))))"
      using toChunk_first_index [OF assms(4,5,6) t fires] strip_warning by simp
    then show ?thesis
      using completion_frame [OF assms(1-4)] by simp
  qed
  have ratings: "emitted_content (googleAIToOpenAI rt p) = Some (JStr (JSON_stringify (JArr ratings)))"
    if "(js_prop c ''finishReason'' = Some (JStr ''SAFETY'')
                 \<or> js_prop c ''finishReason'' = Some (JStr ''OTHER''))
                \<and> opt_member (js_prop c ''content'') ''parts'' = Some (JArr [])"
      and "js_prop c ''safetyRatings'' = Some (JArr ratings)"
    using safety [OF that(1)] that(2) js_trim_array [of ratings] by simp
  have matched: "emitted_content (googleAIToOpenAI rt p) = Some (JStr (js_trim rest))"
    if h: "opt_member (js_prop c ''content'') ''parts'' = Some (JArr (part # ps))
             \<and> js_prop part ''text'' = Some (JStr (pre @ '': '' @ rest))
             \<and> \<not> contains '': '' (pre @ '':'')
             \<and> list_all (\<lambda>ch. \<not> is_line_terminator ch) pre"
  proof -
    from h have "replace_speaker (pre @ '': '' @ rest) = rest"
      using after_speaker_first [of pre rest] by (simp add: replace_speaker_def)
    then show ?thesis
      using text_frame [OF assms(1-5), of part ps "pre @ '': '' @ rest"] h assms(6) by simp
  qed
  have unmatched: "emitted_content (googleAIToOpenAI rt p) = Some (JStr (js_trim s))"
    if h: "opt_member (js_prop c ''content'') ''parts'' = Some (JArr (part # ps))
             \<and> js_prop part ''text'' = Some (JStr s)
             \<and> \<not> contains '': '' (takeWhile (\<lambda>ch. \<not> is_line_terminator ch) s)"
  proof -
    from h have "replace_speaker s = s"
      using after_speaker_none [of s] by (simp add: replace_speaker_def)
    then show ?thesis
      using text_frame [OF assms(1-5), of part ps s] h assms(6) by simp
  qed
  have always: "\<exists>v. u = JStr v
                    \<and> (v = [] \<or> (\<not> is_whitespace (hd v) \<and> \<not> is_whitespace (last v)))"
    if emitted: "emitted_content (googleAIToOpenAI rt p) = Some u" for u
  proof -
    obtain t where t: "extracted_text ev = Inr t"
      using extracted_text_defined [OF assms(4,5)] by simp
    obtain b where b: "isSafetyStop ev = Inr b"
      using isSafetyStop_defined [OF assms(4,5)] by simp
    let ?x = "if b
              then JStr (''[Proxy Warning] Gemini safety filter triggered: ''
                         @ stringify_template (js_prop c ''safetyRatings''))
              else t"
    have "emitted_content (toChunk rt p ev, []) = Some u"
      using emitted completion_frame [OF assms(1-4)] by simp
    then have "strip_first_chunk ?x = Inr u"
      using toChunk_first_index_any [OF assms(4,5,6) t b, of rt "[]"]
      by (cases "strip_first_chunk ?x") simp_all
    then obtain s where "u = JStr (js_trim (replace_speaker s))"
      using strip_first_chunk_trimmed by blast
    then show ?thesis
      using trimmed_ends [of "replace_speaker s"] by blast
  qed
  show ?thesis
    using safety ratings matched unmatched always js_trim_trimmed by blast
qed

lemma example_is_frame:
  assumes "JSON_stringify j \<noteq> []" and "JSON_stringify j \<noteq> ''[DONE]''"
  shows "data (parseEvent (example_runtime j) (params_data (example_params j i))) \<noteq> []"
    and "data (parseEvent (example_runtime j) (params_data (example_params j i))) \<noteq> ''[DONE]''"
    and "JSON_parse (example_runtime j)
           (data (parseEvent (example_runtime j) (params_data (example_params j i)))) = Some j"
  using assms by (simp_all add: example_shape)

theorem first_frame_strip_witness:
  "emitted_content (googleAIToOpenAI (example_runtime blocked_event) (example_params blocked_event 0))
     = Some (JStr (JSON_stringify safety_ratings))
   \<and> emitted_content (googleAIToOpenAI (example_runtime hello_event) (example_params hello_event 0))
     = Some (JStr ''Hello there'')
   \<and> emitted_content (googleAIToOpenAI (example_runtime two_line_event) (example_params two_line_event 0))
     = Some (JStr two_line_text)
   \<and> padded_text = '' Bot:  Hi there '' @ [CHR 0x0A]
   \<and> emitted_content (googleAIToOpenAI (example_runtime padded_event) (example_params padded_event 0))
     = Some (JStr ''Hi there'')"
proof -
  have padded:
    "JSON_stringify padded_event \<noteq> []" "JSON_stringify padded_event \<noteq> ''[DONE]''"
    "js_prop padded_event ''candidates'' = Some (JArr (padded_candidate # []))"
    "padded_candidate \<noteq> JNull"
    "opt_member (js_prop padded_candidate ''content'') ''parts'' = Some (JArr (padded_part # []))"
    "js_prop padded_part ''text'' = Some (JStr ('' Bot'' @ '': '' @ ('' Hi there '' @ [CHR 0x0A])))"
    "\<not> contains '': '' ('' Bot'' @ '':'')"
    "list_all (\<lambda>ch. \<not> is_line_terminator ch) '' Bot''"
    by (simp_all add: padded_event_def padded_candidate_def padded_part_def padded_text_def
        is_line_terminator_def)
  have padded_trim: "js_trim ('' Hi there '' @ [CHR 0x0A]) = ''Hi there''"
    by (simp add: js_trim_def is_whitespace_def)
  have blocked:
    "JSON_stringify blocked_event \<noteq> []" "JSON_stringify blocked_event \<noteq> ''[DONE]''"
    "js_prop blocked_event ''candidates'' = Some (JArr (blocked_candidate # []))"
    "blocked_candidate \<noteq> JNull"
    "opt_member (js_prop blocked_candidate ''content'') ''parts'' = Some (JArr [])"
    "js_prop blocked_candidate ''finishReason'' = Some (JStr ''SAFETY'')"
    "js_prop blocked_candidate ''safetyRatings''
       = Some (JArr [JObj [(''category'', JStr ''HARM_CATEGORY_DANGEROUS_CONTENT''),
                          (''probability'', JStr ''HIGH'')]])"
    by (simp_all add: blocked_event_def blocked_candidate_def safety_ratings_def)
  have hello:
    "JSON_stringify hello_event \<noteq> []" "JSON_stringify hello_event \<noteq> ''[DONE]''"
    "js_prop hello_event ''candidates'' = Some (JArr (hello_candidate # []))"
    "hello_candidate \<noteq> JNull"
    "opt_member (js_prop hello_candidate ''content'') ''parts'' = Some (JArr (hello_part # []))"
    "js_prop hello_part ''text'' = Some (JStr (''Assistant'' @ '': '' @ ''Hello there''))"
    "\<not> contains '': '' (''Assistant'' @ '':'')"
    "list_all (\<lambda>ch. \<not> is_line_terminator ch) ''Assistant''"
    by (simp_all add: hello_event_def hello_candidate_def hello_content_def hello_part_def
        is_line_terminator_def)
  have two_line:
    "JSON_stringify two_line_event \<noteq> []" "JSON_stringify two_line_event \<noteq> ''[DONE]''"
    "js_prop two_line_event ''candidates'' = Some (JArr (two_line_candidate # []))"
    "two_line_candidate \<noteq> JNull"
    "opt_member (js_prop two_line_candidate ''content'') ''parts'' = Some (JArr (two_line_part # []))"
    "js_prop two_line_part ''text'' = Some (JStr two_line_text)"
    "\<not> contains '': '' (takeWhile (\<lambda>ch. \<not> is_line_terminator ch) two_line_text)"
    by (simp_all add: two_line_event_def two_line_candidate_def two_line_part_def
        two_line_text_def is_line_terminator_def)
  have trims: "js_trim ''Hello there'' = ''Hello there''" "js_trim two_line_text = two_line_text"
    by (simp_all add: two_line_text_def js_trim_def is_whitespace_def)
  have first: "index (example_params j 0) = 0" for j
    by (simp add: example_params_def)
  have "emitted_content (googleAIToOpenAI (example_runtime blocked_event) (example_params blocked_event 0))
          = Some (JStr (JSON_stringify (JArr [JObj [(''category'', JStr ''HARM_CATEGORY_DANGEROUS_CONTENT''),
                          (''probability'', JStr ''HIGH'')]])))"
    using first_frame_strip [OF example_is_frame [OF blocked(1,2)] blocked(3,4) first]
      blocked(5,6,7) by blast
  moreover
  have "emitted_content (googleAIToOpenAI (example_runtime hello_event) (example_params hello_event 0))
          = Some (JStr (js_trim ''Hello there''))"
    using first_frame_strip [OF example_is_frame [OF hello(1,2)] hello(3,4) first]
      hello(5,6,7,8) by blast
  moreover
  have "emitted_content (googleAIToOpenAI (example_runtime two_line_event) (example_params two_line_event 0))
          = Some (JStr (js_trim two_line_text))"
    using first_frame_strip [OF example_is_frame [OF two_line(1,2)] two_line(3,4) first]
      two_line(5,6,7) by blast
  moreover
  have "emitted_content (googleAIToOpenAI (example_runtime padded_event) (example_params padded_event 0))
          = Some (JStr (js_trim ('' Hi there '' @ [CHR 0x0A])))"
    using first_frame_strip [OF example_is_frame [OF padded(1,2)] padded(3,4) first]
      padded(5,6,7,8) by blast
  ultimately show ?thesis
    using padded_trim by (simp add: trims safety_ratings_def padded_text_def)
qed

text \<open>
  C10 as stated fails: a first frame whose text has its first colon-space on the second
  line is emitted whole, the run of characters before that colon-space included.
\<close>

theorem strip_stops_at_line_end:
  "contains '': '' two_line_text
   \<and> emitted_content
        (googleAIToOpenAI (example_runtime two_line_event) (example_params two_line_event 0))
       = Some (JStr two_line_text)"
proof -
  have two_line:
    "JSON_stringify two_line_event \<noteq> []" "JSON_stringify two_line_event \<noteq> ''[DONE]''"
    "js_prop two_line_event ''candidates'' = Some (JArr (two_line_candidate # []))"
    "two_line_candidate \<noteq> JNull"
    "opt_member (js_prop two_line_candidate ''content'') ''parts'' = Some (JArr (two_line_part # []))"
    "js_prop two_line_part ''text'' = Some (JStr two_line_text)"
    by (simp_all add: two_line_event_def two_line_candidate_def two_line_part_def)
  have "js_trim (replace_speaker two_line_text) = two_line_text" "contains '': '' two_line_text"
    by (simp_all add: two_line_text_def replace_speaker_def is_line_terminator_def js_trim_def
        is_whitespace_def)
  then show ?thesis
    using text_frame [of "example_runtime two_line_event" "example_params two_line_event 0"
        two_line_event two_line_candidate "[]" two_line_part "[]" two_line_text] two_line
    by (simp add: example_shape)
qed

section \<open>The checker's claims\<close>

lemma invalid_key_text:
  "JSON_stringify invalid_key_error =
     ''{\"code\":400,\"message\":\"API key not valid. Please pass a valid API key.\",\"status\":\"INVALID_ARGUMENT\"}''"
  by (simp add: invalid_key_error_def json_quote_def json_escape_def join_def)

lemma zero_quota_text:
  "JSON_stringify zero_quota_error =
     ''{\"code\":429,\"message\":\"Quota exceeded\",\"status\":\"RESOURCE_EXHAUSTED\",\"details\":[{\"metadata\":{\"quota_limit_value\":\"0\"}}]}''"
  by (simp add: zero_quota_error_def json_quote_def json_escape_def join_def)

lemma pattern_400:
  "join ''|'' (map RegExp_toString keyDeadMsgs_400) =
     ''/please enable billing/i|/API key not valid/i|/API key expired/i|/pass a valid API/i''"
  by (simp add: keyDeadMsgs_400_def RegExp_toString_def join_def)

lemma pattern_429:
  "join ''|'' (map RegExp_toString keyDeadMsgs_429) =
     ''/GenerateContentRequestsPerMinutePerProjectPerRegion/i|/\"quota_limit_value\":\"0\"/i''"
  by (simp add: keyDeadMsgs_429_def RegExp_toString_def join_def)

lemma invalid_key_no_match:
  "\<not> string_match (JSON_stringify invalid_key_error) (join ''|'' (map RegExp_toString keyDeadMsgs_400))"
  unfolding invalid_key_text pattern_400 by (simp add: string_match_def)

lemma zero_quota_no_match:
  "\<not> string_match (JSON_stringify zero_quota_error) (join ''|'' (map RegExp_toString keyDeadMsgs_429))"
  unfolding zero_quota_text pattern_429 by (simp add: string_match_def)

lemma invalid_key_intended:
  "RegExp_test (RegExp ''API key not valid'' ''i'') (JSON_stringify invalid_key_error)"
  unfolding invalid_key_text by (simp add: RegExp_test_def to_lower_def)

lemma zero_quota_intended:
  "RegExp_test (RegExp ''\"quota_limit_value\":\"0\"'' ''i'') (JSON_stringify zero_quota_error)"
  unfolding zero_quota_text by (simp add: RegExp_test_def to_lower_def)

lemma handle_status_effects:
  "\<exists>lv info msg h q.
     effects (handle_status t r st) = effects st @ [Logged (Log lv info msg), UpdateKey h q]
     \<and> msg \<noteq> ''Network error while checking key; trying this key again in a minute.''"
  by (simp add: handle_status_def Let_def updateKey_def log_def)

lemma network_error_effects:
  "effects (network_error t e st) =
     effects st
     @ [Logged (Log Err [(''key'', LStr (hash (the_key st))), (''error'', LStr (message e))]
                  ''Network error while checking key; trying this key again in a minute.''),
        UpdateKey (hash (the_key st))
          (no_patch\<lparr>set_lastChecked := Some (t - (KEY_CHECK_PERIOD - 10 * 1000))\<rparr>)]"
  by (simp add: network_error_def Let_def updateKey_def log_def)

lemma network_error_key:
  "the_key (network_error t e st) = (the_key st)\<lparr>lastChecked := t - (KEY_CHECK_PERIOD - 10 * 1000)\<rparr>"
  by (simp add: network_error_def Let_def updateKey_def log_def apply_patch_def no_patch_def)

lemma handle_status_not_network: "handle_status t r st \<noteq> network_error t e st"
proof
  assume "handle_status t r st = network_error t e st"
  then have "effects (handle_status t r st) = effects (network_error t e st)"
    by simp
  then show False
    using handle_status_effects [of t r st] by (auto simp add: network_error_effects)
qed

text \<open>
  C1, as amended. The network-error action is taken exactly when the failure carries no
  HTTP response or its response body is not an error envelope, that is, has neither a
  truthy \<^verbatim>\<open>error.code\<close> nor a truthy \<^verbatim>\<open>error.status\<close>. That action writes one error
  log line and patches \<^verbatim>\<open>lastChecked\<close> alone, so the key stays as enabled as it was and
  is due again ten seconds after now. A failure whose response carries an envelope goes
  through the switch on its HTTP status.
\<close>

theorem network_error_action_guard:
  "(handleAxiosError t e st = network_error t e st
      \<longleftrightarrow> response e = None \<or> \<not> errorIsGoogleAIError e)
   \<and> (\<forall>r. response e = Some r \<and> errorIsGoogleAIError e
          \<longrightarrow> handleAxiosError t e st = handle_status t r st)
   \<and> effects (network_error t e st) =
       effects st
       @ [Logged (Log Err [(''key'', LStr (hash (the_key st))), (''error'', LStr (message e))]
                    ''Network error while checking key; trying this key again in a minute.''),
          UpdateKey (hash (the_key st))
            (no_patch\<lparr>set_lastChecked := Some (t - (KEY_CHECK_PERIOD - 10 * 1000))\<rparr>)]
   \<and> isDisabled (the_key (network_error t e st)) = isDisabled (the_key st)
   \<and> isRevoked (the_key (network_error t e st)) = isRevoked (the_key st)
   \<and> nextDue (the_key (network_error t e st)) = t + 10 * 1000"
proof -
  have "handleAxiosError t e st = network_error t e st
          \<longleftrightarrow> response e = None \<or> \<not> errorIsGoogleAIError e"
  proof (cases "response e")
    case None
    then show ?thesis by (simp add: handleAxiosError_def)
  next
    case (Some r)
    then show ?thesis
      using handle_status_not_network [of t r st e] by (simp add: handleAxiosError_def)
  qed
  moreover have "\<forall>r. response e = Some r \<and> errorIsGoogleAIError e
          \<longrightarrow> handleAxiosError t e st = handle_status t r st"
    by (simp add: handleAxiosError_def)
  ultimately show ?thesis
    by (simp add: network_error_effects network_error_key nextDue_def)
qed

theorem network_error_action_witness:
  "handleAxiosError example_now timeout_failure example_state
     = network_error example_now timeout_failure example_state
   \<and> handleAxiosError example_now invalid_key_failure example_state
     \<noteq> network_error example_now invalid_key_failure example_state
   \<and> handleAxiosError example_now invalid_key_failure example_state
     = handle_status example_now
         \<lparr>status = 400, response_data = Some (JObj [(''error'', invalid_key_error)])\<rparr> example_state
   \<and> nextDue (the_key (handleAxiosError example_now timeout_failure example_state))
     = example_now + 10000"
proof -
  have a: "response timeout_failure = None"
    by (simp add: timeout_failure_def)
  have b: "response invalid_key_failure
             = Some \<lparr>status = 400, response_data = Some (JObj [(''error'', invalid_key_error)])\<rparr>"
    "errorIsGoogleAIError invalid_key_failure"
    by (simp_all add: invalid_key_failure_def errorIsGoogleAIError_def invalid_key_error_def)
  have 1: "handleAxiosError example_now timeout_failure example_state
             = network_error example_now timeout_failure example_state"
    and 2: "nextDue (the_key (network_error example_now timeout_failure example_state))
             = example_now + 10000"
    using network_error_action_guard [of example_now timeout_failure example_state] a
    by simp_all
  have c: "\<not> (response invalid_key_failure = None \<or> \<not> errorIsGoogleAIError invalid_key_failure)"
    using b by simp
  have 3: "handleAxiosError example_now invalid_key_failure example_state
             \<noteq> network_error example_now invalid_key_failure example_state"
    using network_error_action_guard [of example_now invalid_key_failure example_state] c
    by blast
  have 4: "handleAxiosError example_now invalid_key_failure example_state
             = handle_status example_now
                 \<lparr>status = 400, response_data = Some (JObj [(''error'', invalid_key_error)])\<rparr>
                 example_state"
    using network_error_action_guard [of example_now invalid_key_failure example_state] b
    by blast
  show ?thesis
    using 1 2 3 4 by simp
qed

text \<open>
  C1 as stated fails: a failure that carries an HTTP response, status 503 with a text
  body, takes the network-error action.
\<close>

theorem response_without_envelope_is_network_error:
  "response gateway_failure
     = Some \<lparr>status = 503, response_data = Some (JStr ''Service Unavailable'')\<rparr>
   \<and> handleAxiosError example_now gateway_failure example_state =
       \<lparr>the_key = example_key\<lparr>lastChecked := example_now - (KEY_CHECK_PERIOD - 10 * 1000)\<rparr>,
        effects =
          [Logged (Log Err [(''key'', LStr ''goo-1a2b''),
                            (''error'', LStr ''Request failed with status code 503'')]
                     ''Network error while checking key; trying this key again in a minute.''),
           UpdateKey ''goo-1a2b''
             (no_patch\<lparr>set_lastChecked := Some (example_now - (KEY_CHECK_PERIOD - 10 * 1000))\<rparr>)]\<rparr>"
  by (simp add: gateway_failure_def handleAxiosError_def errorIsGoogleAIError_def
      network_error_def Let_def updateKey_def log_def apply_patch_def no_patch_def
      example_state_def example_key_def)

text \<open>
  C4. The code does not disable a key on an HTTP 400 whose error text says that the API
  key is not valid. The joined pattern asks for the expression's own text, slashes and
  flag included, which the serialised error does not contain, so the failure falls
  through to the unexpected-status branch: an error log line and a \<^verbatim>\<open>lastChecked\<close> of
  now, the key left enabled.
\<close>

theorem invalid_key_400_not_disabled:
  "RegExp_test (RegExp ''API key not valid'' ''i'') (JSON_stringify invalid_key_error)
   \<and> handleAxiosError example_now invalid_key_failure example_state =
       \<lparr>the_key = example_key\<lparr>lastChecked := example_now\<rparr>,
        effects =
          [Logged (Log Err [(''key'', LStr ''goo-1a2b''),
                            (''status'', LVal (Some (JStr ''INVALID_ARGUMENT''))),
                            (''code'', LVal (Some (JNum ''400''))),
                            (''message'', LVal (Some (JStr ''API key not valid. Please pass a valid API key.''))),
                            (''details'', LVal None)]
                     ''Encountered unexpected error status while checking key. This may indicate a change in the API; please report this.''),
           UpdateKey ''goo-1a2b'' (no_patch\<lparr>set_lastChecked := Some example_now\<rparr>)]\<rparr>"
proof -
  have "errorIsGoogleAIError invalid_key_failure"
    by (simp add: invalid_key_failure_def errorIsGoogleAIError_def invalid_key_error_def)
  moreover have "opt_member (Some (JObj [(''error'', invalid_key_error)])) ''error'' = Some invalid_key_error"
    by simp
  moreover have "opt_member (Some invalid_key_error) ''status'' = Some (JStr ''INVALID_ARGUMENT'')"
    "opt_member (Some invalid_key_error) ''code'' = Some (JNum ''400'')"
    "opt_member (Some invalid_key_error) ''message''
       = Some (JStr ''API key not valid. Please pass a valid API key.'')"
    "opt_member (Some invalid_key_error) ''details'' = None"
    by (simp_all add: invalid_key_error_def)
  ultimately show ?thesis
    using invalid_key_no_match invalid_key_intended
    by (simp add: handleAxiosError_def invalid_key_failure_def handle_status_def Let_def
        updateKey_def log_def apply_patch_def no_patch_def example_state_def example_key_def)
qed

text \<open>
  C3. The code does not disable a key on an HTTP 429 whose error text holds
  \<^verbatim>\<open>"quota_limit_value":"0"\<close>, for the same reason as in C4: the failure is treated as an
  ordinary rate limit, the key stays enabled and is due again in a minute.
\<close>

theorem zero_quota_429_not_disabled:
  "RegExp_test (RegExp ''\"quota_limit_value\":\"0\"'' ''i'') (JSON_stringify zero_quota_error)
   \<and> handleAxiosError example_now zero_quota_failure example_state =
       \<lparr>the_key = example_key\<lparr>lastChecked := example_now - (KEY_CHECK_PERIOD - 60 * 1000)\<rparr>,
        effects =
          [Logged (Log Warn [(''key'', LStr ''goo-1a2b''),
                             (''status'', LVal (Some (JStr ''RESOURCE_EXHAUSTED''))),
                             (''code'', LVal (Some (JNum ''429''))),
                             (''message'', LVal (Some (JStr ''Quota exceeded''))),
                             (''details'', LVal (Some (JArr [JObj [(''metadata'', JObj [(''quota_limit_value'', JStr ''0'')])]])))]
                     ''Key is rate limited. Rechecking key in 1 minute.''),
           UpdateKey ''goo-1a2b''
             (no_patch\<lparr>set_lastChecked := Some (example_now - (KEY_CHECK_PERIOD - 60 * 1000))\<rparr>)]\<rparr>"
proof -
  have "errorIsGoogleAIError zero_quota_failure"
    by (simp add: zero_quota_failure_def errorIsGoogleAIError_def zero_quota_error_def)
  moreover have "opt_member (Some (JObj [(''error'', zero_quota_error)])) ''error'' = Some zero_quota_error"
    by simp
  moreover have "opt_member (Some zero_quota_error) ''status'' = Some (JStr ''RESOURCE_EXHAUSTED'')"
    "opt_member (Some zero_quota_error) ''code'' = Some (JNum ''429'')"
    "opt_member (Some zero_quota_error) ''message'' = Some (JStr ''Quota exceeded'')"
    "opt_member (Some zero_quota_error) ''details''
       = Some (JArr [JObj [(''metadata'', JObj [(''quota_limit_value'', JStr ''0'')])]])"
    by (simp_all add: zero_quota_error_def)
  ultimately show ?thesis
    using zero_quota_no_match zero_quota_intended
    by (simp add: handleAxiosError_def zero_quota_failure_def handle_status_def Let_def
        updateKey_def log_def apply_patch_def no_patch_def example_state_def example_key_def)
qed

lemma unauthorized_disables:
  assumes "status r = 401 \<or> status r = 403"
  shows "effects (handle_status t r st) =
           effects st
           @ [Logged (Log Warn
                [(''key'', LStr (hash (the_key st))),
                 (''status'', LVal (opt_member (opt_member (response_data r) ''error'') ''status'')),
                 (''code'', LVal (opt_member (opt_member (response_data r) ''error'') ''code'')),
                 (''message'', LVal (opt_member (opt_member (response_data r) ''error'') ''message'')),
                 (''details'', LVal (opt_member (opt_member (response_data r) ''error'') ''details''))]
                ''Key check returned Forbidden/Unauthorized error. Disabling key.''),
              UpdateKey (hash (the_key st)) disable_and_revoke]"
    and "isDisabled (the_key (handle_status t r st))"
    and "isRevoked (the_key (handle_status t r st))"
  using assms
  by (auto simp add: handle_status_def Let_def updateKey_def log_def apply_patch_def
      disable_and_revoke_def no_patch_def)

lemma other_status_rescheduled:
  assumes "status r \<noteq> 400" and "status r \<noteq> 401" and "status r \<noteq> 403" and "status r \<noteq> 429"
  shows "the_key (handle_status t r st) = (the_key st)\<lparr>lastChecked := t\<rparr>"
  using assms
  by (simp add: handle_status_def Let_def updateKey_def log_def apply_patch_def no_patch_def)

lemma unmatched_400_rescheduled:
  assumes "status r = 400"
      and "\<not> string_match (stringify_template (opt_member (response_data r) ''error''))
                (join ''|'' (map RegExp_toString keyDeadMsgs_400))"
  shows "the_key (handle_status t r st) = (the_key st)\<lparr>lastChecked := t\<rparr>"
  using assms
  by (simp add: handle_status_def Let_def updateKey_def log_def apply_patch_def no_patch_def)

lemma unmatched_429_rescheduled:
  assumes "status r = 429"
      and "\<not> string_match (stringify_template (opt_member (response_data r) ''error''))
                (join ''|'' (map RegExp_toString keyDeadMsgs_429))"
  shows "the_key (handle_status t r st)
           = (the_key st)\<lparr>lastChecked := t - (KEY_CHECK_PERIOD - 60 * 1000)\<rparr>"
    and "nextDue (the_key (handle_status t r st)) = t + 60 * 1000"
  using assms
  by (simp_all add: handle_status_def Let_def updateKey_def log_def apply_patch_def no_patch_def
      nextDue_def)

lemma set_add_set: "set (set_add xs x) = insert x (set xs)"
  by (auto simp add: set_add_def)

lemma set_add_distinct: "distinct xs \<Longrightarrow> distinct (set_add xs x)"
  by (simp add: set_add_def)

lemma fold_set_add:
  "distinct acc \<Longrightarrow>
   distinct (foldl (\<lambda>a m. set_add a (f m)) acc ms)
   \<and> set (foldl (\<lambda>a m. set_add a (f m)) acc ms) = set acc \<union> f ` set ms"
proof (induction ms arbitrary: acc)
  case Nil
  then show ?case by simp
next
  case (Cons m ms)
  from Cons.prems have "distinct (set_add acc (f m))"
    by (rule set_add_distinct)
  from Cons.IH [OF this] show ?case
    by (auto simp add: set_add_set)
qed

lemma discovered_ids_set:
  "distinct (discovered_ids ms) \<and> set (discovered_ids ms) = name ` set ms"
  using fold_set_add [of "[]" name ms] by (simp add: discovered_ids_def)

lemma discovered_families_set:
  "distinct (discovered_families classify ms)
   \<and> set (discovered_families classify ms) = (\<lambda>m. classify (name m)) ` set ms"
  using fold_set_add [of "[]" "\<lambda>m. classify (name m)" ms] by (simp add: discovered_families_def)

lemma getProvisionedModels_ok:
  assumes "list_models w = Inr r"
  shows "getProvisionedModels w st =
           (Inr (discovered_families (getGoogleAIModelFamily w) (models (response_data r))),
            \<lparr>the_key = (the_key st)
               \<lparr>modelFamilies := discovered_families (getGoogleAIModelFamily w) (models (response_data r)),
                modelIds := discovered_ids (models (response_data r))\<rparr>,
             effects = effects st
               @ [HttpGet (LIST_MODELS_URL @ ''?pageSize=1000&key='' @ key (the_key st)),
                  UpdateKey (hash (the_key st))
                    (no_patch\<lparr>set_modelFamilies :=
                                Some (discovered_families (getGoogleAIModelFamily w) (models (response_data r))),
                              set_modelIds := Some (discovered_ids (models (response_data r)))\<rparr>)]\<rparr>)"
  using assms
  by (simp add: getProvisionedModels_def Let_def updateKey_def apply_patch_def no_patch_def)

lemma testGenerateContent_result:
  "testGenerateContent w st =
     (case generate_content w of
        Response r \<Rightarrow>
          if status r = 200 then Inr ()
          else Inl \<lparr>response = Some r,
                    message = ''Request failed with status code '' @ show_nat (nat (status r))\<rparr>
      | NoResponse m \<Rightarrow> Inl \<lparr>response = None, message = m\<rparr>,
      st\<lparr>effects := effects st
            @ [HttpPost (js_replace GENERATE_CONTENT_URL ''%KEY%'' (key (the_key st))) generate_payload]\<rparr>)"
  by (cases "generate_content w") (simp_all add: testGenerateContent_def Let_def)

text \<open>
  C8. When the model listing succeeds, the probe's effects begin with the listing
  request, the patch of the key with the discovered families and the discovered model
  ids, and only then the generation request, whatever that request then brings. Both
  lists are sets: no entry twice, the ids being the names listed and the families their
  classes. If the probe then fails, the key record still holds both.
\<close>

theorem capabilities_patched_before_smoke_test:
  assumes "list_models w = Inr r"
  shows "(\<exists>rest.
            effects (snd (testKeyOrFail w st)) =
              effects st
              @ [HttpGet (LIST_MODELS_URL @ ''?pageSize=1000&key='' @ key (the_key st)),
                 UpdateKey (hash (the_key st))
                   (no_patch\<lparr>set_modelFamilies :=
                               Some (discovered_families (getGoogleAIModelFamily w) (models (response_data r))),
                             set_modelIds := Some (discovered_ids (models (response_data r)))\<rparr>),
                 HttpPost (js_replace GENERATE_CONTENT_URL ''%KEY%'' (key (the_key st))) generate_payload]
              @ rest)
         \<and> (\<forall>e. fst (testKeyOrFail w st) = Inl e \<longrightarrow>
               the_key (snd (testKeyOrFail w st)) =
                 (the_key st)
                   \<lparr>modelFamilies := discovered_families (getGoogleAIModelFamily w) (models (response_data r)),
                    modelIds := discovered_ids (models (response_data r))\<rparr>)
         \<and> distinct (discovered_ids (models (response_data r)))
         \<and> set (discovered_ids (models (response_data r))) = name ` set (models (response_data r))
         \<and> distinct (discovered_families (getGoogleAIModelFamily w) (models (response_data r)))
         \<and> set (discovered_families (getGoogleAIModelFamily w) (models (response_data r)))
             = (\<lambda>m. getGoogleAIModelFamily w (name m)) ` set (models (response_data r))"
proof -
  have "\<exists>rest.
            effects (snd (testKeyOrFail w st)) =
              effects st
              @ [HttpGet (LIST_MODELS_URL @ ''?pageSize=1000&key='' @ key (the_key st)),
                 UpdateKey (hash (the_key st))
                   (no_patch\<lparr>set_modelFamilies :=
                               Some (discovered_families (getGoogleAIModelFamily w) (models (response_data r))),
                             set_modelIds := Some (discovered_ids (models (response_data r)))\<rparr>),
                 HttpPost (js_replace GENERATE_CONTENT_URL ''%KEY%'' (key (the_key st))) generate_payload]
              @ rest"
    by (cases "generate_content w")
      (simp_all add: testKeyOrFail_def getProvisionedModels_ok [OF assms]
        testGenerateContent_result Let_def updateKey_def log_def)
  moreover have "\<forall>e. fst (testKeyOrFail w st) = Inl e \<longrightarrow>
               the_key (snd (testKeyOrFail w st)) =
                 (the_key st)
                   \<lparr>modelFamilies := discovered_families (getGoogleAIModelFamily w) (models (response_data r)),
                    modelIds := discovered_ids (models (response_data r))\<rparr>"
    by (cases "generate_content w")
      (simp_all add: testKeyOrFail_def getProvisionedModels_ok [OF assms]
        testGenerateContent_result Let_def)
  ultimately show ?thesis
    using discovered_ids_set discovered_families_set by blast
qed

lemma example_discovery:
  "discovered_ids example_models
     = [''models/gemini-pro'', ''models/gemini-pro-vision'', ''models/gemini-1.5-pro-latest'']"
  "discovered_families example_classifier example_models = [''gemini-pro'', ''gemini-ultra'']"
  by (simp_all add: discovered_ids_def discovered_families_def example_models_def
      example_classifier_def set_add_def)

lemma example_world_fields:
  "list_models (example_world g) = Inr \<lparr>status = 200, response_data = \<lparr>models = example_models\<rparr>\<rparr>"
  "generate_content (example_world g) = g"
  "getGoogleAIModelFamily (example_world g) = example_classifier"
  "now (example_world g) = example_now"
  by (simp_all add: example_world_def)

theorem capabilities_patched_witness:
  "(\<exists>e. fst (testKeyOrFail (example_world (Response forbidden_response)) example_state) = Inl e)
   \<and> the_key (snd (testKeyOrFail (example_world (Response forbidden_response)) example_state)) =
       example_key
         \<lparr>modelFamilies := [''gemini-pro'', ''gemini-ultra''],
          modelIds := [''models/gemini-pro'', ''models/gemini-pro-vision'',
                       ''models/gemini-1.5-pro-latest'']\<rparr>"
proof -
  let ?w = "example_world (Response forbidden_response)"
  have failed: "fst (testKeyOrFail ?w example_state)
                  = Inl \<lparr>response = Some forbidden_response,
                         message = ''Request failed with status code '' @ show_nat (nat 403)\<rparr>"
    by (simp add: testKeyOrFail_def getProvisionedModels_ok [OF example_world_fields(1)]
        testGenerateContent_result example_world_fields forbidden_response_def)
  then show ?thesis
    using capabilities_patched_before_smoke_test [OF example_world_fields(1), of "Response forbidden_response" example_state]
    by (simp add: example_world_fields example_discovery example_state_def)
qed

text \<open>
  What a fully successful probe does: the last call of \<^verbatim>\<open>updateKey\<close> carries a patch that
  names \<^verbatim>\<open>modelFamilies\<close>, set to the discovered families, and nothing else, and an info
  log line then records the key hash, the key's family list and the number of its model
  ids.
\<close>

lemma full_success_patches_families_only:
  assumes "list_models w = Inr r" and "generate_content w = Response g" and "status g = 200"
  shows "testKeyOrFail w st =
           (Inr (),
            \<lparr>the_key = (the_key st)
               \<lparr>modelFamilies := discovered_families (getGoogleAIModelFamily w) (models (response_data r)),
                modelIds := discovered_ids (models (response_data r))\<rparr>,
             effects = effects st
               @ [HttpGet (LIST_MODELS_URL @ ''?pageSize=1000&key='' @ key (the_key st)),
                  UpdateKey (hash (the_key st))
                    (no_patch\<lparr>set_modelFamilies :=
                                Some (discovered_families (getGoogleAIModelFamily w) (models (response_data r))),
                              set_modelIds := Some (discovered_ids (models (response_data r)))\<rparr>),
                  HttpPost (js_replace GENERATE_CONTENT_URL ''%KEY%'' (key (the_key st))) generate_payload,
                  UpdateKey (hash (the_key st))
                    (no_patch\<lparr>set_modelFamilies :=
                                Some (discovered_families (getGoogleAIModelFamily w) (models (response_data r)))\<rparr>),
                  Logged (Log Info
                    [(''key'', LStr (hash (the_key st))),
                     (''models'', LList (discovered_families (getGoogleAIModelFamily w) (models (response_data r)))),
                     (''ids'', LNum (length (discovered_ids (models (response_data r)))))]
                    ''Checked key.'')]\<rparr>)"
  using assms
  by (simp add: testKeyOrFail_def getProvisionedModels_ok [OF assms(1)] testGenerateContent_result
      Let_def updateKey_def log_def apply_patch_def no_patch_def)

lemma full_success_example:
  "testKeyOrFail (example_world ok_reply) example_state =
     (Inr (),
      \<lparr>the_key = example_key
         \<lparr>modelFamilies := [''gemini-pro'', ''gemini-ultra''],
          modelIds := [''models/gemini-pro'', ''models/gemini-pro-vision'',
                       ''models/gemini-1.5-pro-latest'']\<rparr>,
       effects =
         [HttpGet (LIST_MODELS_URL @ ''?pageSize=1000&key=AIzaSyExample''),
          UpdateKey ''goo-1a2b''
            (no_patch\<lparr>set_modelFamilies := Some [''gemini-pro'', ''gemini-ultra''],
                      set_modelIds := Some [''models/gemini-pro'', ''models/gemini-pro-vision'',
                                            ''models/gemini-1.5-pro-latest'']\<rparr>),
          HttpPost ''https://generativelanguage.googleapis.com/v1beta/models/gemini-1.5-pro-latest:generateContent?key=AIzaSyExample''
            generate_payload,
          UpdateKey ''goo-1a2b'' (no_patch\<lparr>set_modelFamilies := Some [''gemini-pro'', ''gemini-ultra'']\<rparr>),
          Logged (Log Info [(''key'', LStr ''goo-1a2b''),
                            (''models'', LList [''gemini-pro'', ''gemini-ultra'']),
                            (''ids'', LNum 3)]
                    ''Checked key.'')]\<rparr>)"
  using full_success_patches_families_only
    [of "example_world ok_reply" _ "\<lparr>status = 200, response_data = Some (JObj [(''candidates'', JArr [])])\<rparr>"
        example_state, OF example_world_fields(1)]
    generation_url_plain [of "''AIzaSyExample''"]
  by (simp add: example_world_fields example_discovery example_state_def example_key_def ok_reply_def)

lemma success_leaves_due:
  assumes "list_models w = Inr r" and "generate_content w = Response g" and "status g = 200"
  shows "lastChecked (the_key (snd (testKeyOrFail w st))) = lastChecked (the_key st)"
    and "nextDue (the_key (snd (testKeyOrFail w st))) = nextDue (the_key st)"
  by (simp_all add: full_success_patches_families_only [OF assms] nextDue_def)


text \<open>
  C9. The generation request resolves exactly when it is answered with status 200. An
  answer of any other status is raised as a failure that carries the response, and the
  check of the key (modelled from the spec) hands that failure to the error classifier,
  on the state the probe left.
\<close>

theorem smoke_test_needs_200:
  "(fst (testGenerateContent w st) = Inr ()
      \<longleftrightarrow> (case generate_content w of Response g \<Rightarrow> status g = 200 | NoResponse m \<Rightarrow> False))
   \<and> (\<forall>g. generate_content w = Response g \<and> status g \<noteq> 200 \<longrightarrow>
          fst (testGenerateContent w st)
            = Inl \<lparr>response = Some g,
                   message = ''Request failed with status code '' @ show_nat (nat (status g))\<rparr>
          \<and> (\<forall>r. list_models w = Inr r \<longrightarrow>
                 checkKey w st =
                   handleAxiosError (now w)
                     \<lparr>response = Some g,
                      message = ''Request failed with status code '' @ show_nat (nat (status g))\<rparr>
                     (snd (testKeyOrFail w st))))"
proof -
  have "fst (testGenerateContent w st) = Inr ()
      \<longleftrightarrow> (case generate_content w of Response g \<Rightarrow> status g = 200 | NoResponse m \<Rightarrow> False)"
    by (cases "generate_content w") (simp_all add: testGenerateContent_result)
  moreover have "fst (testGenerateContent w st)
            = Inl \<lparr>response = Some g,
                   message = ''Request failed with status code '' @ show_nat (nat (status g))\<rparr>"
    if "generate_content w = Response g" and "status g \<noteq> 200" for g
    using that by (simp add: testGenerateContent_result)
  moreover have "checkKey w st =
                   handleAxiosError (now w)
                     \<lparr>response = Some g,
                      message = ''Request failed with status code '' @ show_nat (nat (status g))\<rparr>
                     (snd (testKeyOrFail w st))"
    if "generate_content w = Response g" and "status g \<noteq> 200" and "list_models w = Inr r" for g r
    using that
    by (simp add: checkKey_def testKeyOrFail_def getProvisionedModels_ok [OF that(3)]
        testGenerateContent_result)
  ultimately show ?thesis
    by blast
qed

theorem smoke_test_witness:
  "fst (testGenerateContent (example_world ok_reply) example_state) = Inr ()
   \<and> (\<exists>e. fst (testGenerateContent (example_world (Response forbidden_response)) example_state) = Inl e
          \<and> response e = Some forbidden_response
          \<and> checkKey (example_world (Response forbidden_response)) example_state
              = handleAxiosError example_now e
                  (snd (testKeyOrFail (example_world (Response forbidden_response)) example_state)))
   \<and> isDisabled (the_key (checkKey (example_world (Response forbidden_response)) example_state))"
proof -
  let ?w = "example_world (Response forbidden_response)"
  let ?e = "\<lparr>response = Some forbidden_response,
             message = ''Request failed with status code '' @ show_nat (nat (status forbidden_response))\<rparr>"
  have ok: "fst (testGenerateContent (example_world ok_reply) example_state) = Inr ()"
    using smoke_test_needs_200 [of "example_world ok_reply" example_state]
    by (simp add: example_world_fields ok_reply_def)
  have s: "status forbidden_response \<noteq> 200" "status forbidden_response = 403"
    by (simp_all add: forbidden_response_def)
  have raised: "fst (testGenerateContent ?w example_state) = Inl ?e"
    and routed: "checkKey ?w example_state
                   = handleAxiosError example_now ?e (snd (testKeyOrFail ?w example_state))"
    using smoke_test_needs_200 [of ?w example_state] s(1)
    by (simp_all add: example_world_fields)
  have "errorIsGoogleAIError ?e"
    by (simp add: errorIsGoogleAIError_def forbidden_response_def)
  then have "isDisabled (the_key (handleAxiosError example_now ?e (snd (testKeyOrFail ?w example_state))))"
    using unauthorized_disables(2) [of forbidden_response] s(2)
    by (simp add: handleAxiosError_def)
  then show ?thesis
    using ok raised routed by simp
qed

end
